theory Spec2Isabelle
  imports Complex_Main
begin

section \<open>Python values the item synchronisation works on\<close>

text \<open>
  The embedding follows \<^verbatim>\<open>woocommerce_fusion/tasks/sync_items.py\<close>. A Python
  \<^verbatim>\<open>str\<close> is a \<^typ>\<open>string\<close> whose characters are the code points below 256; an
  exception is a value of \<open>exn\<close>, and a function that can raise returns \<open>exn + 'a\<close>.
\<close>

datatype exn =
  ValueError
  | IndexError
  | UnboundLocalError
  | AttributeError
  | DoesNotExistError
  | ValidationError
  | SyncDisabledError
  | RemoteError
  | TypeError
  | JsonPathParserError
  | StopIteration

subsection \<open>String primitives\<close>

text \<open>
  \<^verbatim>\<open>str.isspace\<close>, and \<^verbatim>\<open>\s\<close> of a \<^verbatim>\<open>re\<close> pattern on \<^verbatim>\<open>str\<close>, below code point 256:
  TAB..CR, FS..US, SPACE, NEL and NBSP.
\<close>

definition is_space :: "char \<Rightarrow> bool" where
  "is_space c = ((of_char c :: nat) \<in> {9, 10, 11, 12, 13, 28, 29, 30, 31, 32, 133, 160})"

definition is_digit :: "char \<Rightarrow> bool" where
  "is_digit c = (48 \<le> (of_char c :: nat) \<and> (of_char c :: nat) \<le> 57)"

definition digit_val :: "char \<Rightarrow> nat" where
  "digit_val c = (of_char c :: nat) - 48"

definition digit_char :: "nat \<Rightarrow> char" where
  "digit_char d = char_of (48 + d)"

text \<open>\<^verbatim>\<open>s.strip()\<close>: whitespace removed at both ends.\<close>

definition strip :: "string \<Rightarrow> string" where
  "strip s = rev (dropWhile is_space (rev (dropWhile is_space s)))"

text \<open>\<^verbatim>\<open>s.split(d)\<close> for a one-character separator: never an empty list.\<close>

fun split_on :: "char \<Rightarrow> string \<Rightarrow> string list" where
  "split_on d [] = [[]]"
| "split_on d (c # cs) =
     (if c = d then [] # split_on d cs
      else (case split_on d cs of p # ps \<Rightarrow> (c # p) # ps | [] \<Rightarrow> [[c]]))"

text \<open>
  \<^verbatim>\<open>re.split(r"[,\s]+", s)\<close>: a run of commas and whitespace is one separator; a
  separator at either end leaves an empty first or last piece.
\<close>

definition is_sep :: "char \<Rightarrow> bool" where
  "is_sep c = (c = CHR '','' \<or> is_space c)"

fun re_split :: "string \<Rightarrow> string list" where
  "re_split [] = [[]]"
| "re_split (c # cs) =
     (if is_sep c then
        (case cs of
           d # _ \<Rightarrow> if is_sep d then re_split cs else [] # re_split cs
         | [] \<Rightarrow> [] # re_split cs)
      else (case re_split cs of p # ps \<Rightarrow> (c # p) # ps | [] \<Rightarrow> [[c]]))"

text \<open>
  \<^verbatim>\<open>int(s)\<close> on a string: whitespace stripped, an optional sign, then decimal digits
  in which single underscores may separate digits. \<open>None\<close> is the \<^verbatim>\<open>ValueError\<close>.
  (The length limit of recent interpreters on very long digit strings is not modelled.)
\<close>

fun parse_digits :: "nat \<Rightarrow> string \<Rightarrow> nat option" where
  "parse_digits acc [] = None"
| "parse_digits acc [c] = (if is_digit c then Some (acc * 10 + digit_val c) else None)"
| "parse_digits acc (c # d # ds) =
     (if is_digit c then
        (if d = CHR ''_'' then parse_digits (acc * 10 + digit_val c) ds
         else parse_digits (acc * 10 + digit_val c) (d # ds))
      else None)"

definition py_int :: "string \<Rightarrow> int option" where
  "py_int s =
     (case strip s of
        [] \<Rightarrow> None
      | c # cs \<Rightarrow>
          if c = CHR ''-'' then map_option (\<lambda>n. - int n) (parse_digits 0 cs)
          else if c = CHR ''+'' then map_option int (parse_digits 0 cs)
          else map_option int (parse_digits 0 (c # cs)))"

text \<open>\<^verbatim>\<open>str(n)\<close> on an integer.\<close>

fun str_nat :: "nat \<Rightarrow> string" where
  "str_nat n = (if n < 10 then [digit_char n] else str_nat (n div 10) @ [digit_char (n mod 10)])"

declare str_nat.simps [simp del]

definition py_str :: "int \<Rightarrow> string" where
  "py_str i = (if i < 0 then CHR ''-'' # str_nat (nat (- i)) else str_nat (nat i))"

text \<open>\<^verbatim>\<open>sep.join(xs)\<close>.\<close>

fun join :: "string \<Rightarrow> string list \<Rightarrow> string" where
  "join sep [] = []"
| "join sep [x] = x"
| "join sep (x # y # ys) = x @ sep @ join sep (y # ys)"

section \<open>The temporal range expander\<close>

text \<open>
  The inner function \<^verbatim>\<open>normalize(year, base=None)\<close> of \<^verbatim>\<open>expand_years\<close>: a
  two-character year gets the first two characters of a four-character \<open>base\<close>, or
  \<^verbatim>\<open>"20"\<close>.
\<close>

definition normalize :: "string \<Rightarrow> string option \<Rightarrow> string" where
  "normalize year base =
     (let year = strip year in
      if length year = 2 then
        (let century =
           (case base of
              Some b \<Rightarrow> if b \<noteq> [] \<and> length b = 4 then take 2 b else ''20''
            | None \<Rightarrow> ''20'')
         in century @ year)
      else year)"

text \<open>
  One iteration of the loop over the parts, for a non-empty part: what it appends to
  \<^verbatim>\<open>results\<close>, or the exception it raises. \<^verbatim>\<open>start, end = part.split("-")\<close> raises
  unless there are exactly two pieces; \<^verbatim>\<open>range(int(start), int(end) + 1)\<close> runs over
  the integers from \<open>start\<close> to \<open>end\<close>.
\<close>

definition expand_part :: "string \<Rightarrow> exn + string list" where
  "expand_part part =
     (if CHR ''-'' \<in> set part then
        (case split_on (CHR ''-'') part of
           [start, end] \<Rightarrow>
             (let start = normalize start None;
                  end = normalize end (Some start)
              in (case py_int start of
                    None \<Rightarrow> Inl ValueError
                  | Some a \<Rightarrow>
                      (case py_int end of
                         None \<Rightarrow> Inl ValueError
                       | Some b \<Rightarrow> Inr (map py_str [a..b]))))
         | _ \<Rightarrow> Inl ValueError)
      else Inr [normalize part None])"

fun expand_parts :: "string list \<Rightarrow> string list \<Rightarrow> exn + string list" where
  "expand_parts [] results = Inr results"
| "expand_parts (part # parts) results =
     (if part = [] then expand_parts parts results
      else (case expand_part part of
              Inl e \<Rightarrow> Inl e
            | Inr ys \<Rightarrow> expand_parts parts (results @ ys)))"

text \<open>
  \<^verbatim>\<open>sorted(set(results), key=int)\<close> raises when \<^verbatim>\<open>int\<close> fails on an element. The
  sort is stable on the iteration order of the set, which Python leaves open; the model
  takes the duplicate-free list \<open>remdups results\<close>. The order matters only between
  different strings of one integer value.
\<close>

definition year_key :: "string \<Rightarrow> int" where
  "year_key r = (case py_int r of Some i \<Rightarrow> i | None \<Rightarrow> 0)"

definition expand_years :: "string \<Rightarrow> exn + string list" where
  "expand_years text =
     (case expand_parts (re_split (strip text)) [] of
        Inl e \<Rightarrow> Inl e
      | Inr results \<Rightarrow>
          if list_all (\<lambda>r. py_int r \<noteq> None) results
          then Inr (sort_key year_key (remdups results))
          else Inl ValueError)"

subsection \<open>Well-formed year specifications\<close>

text \<open>
  The inputs the expander is written for: every token is a year of two digits, or of
  four digits that do not start with zero, or two such years around one hyphen.
  \<open>tokens\<close> are the non-empty parts the loop of \<^verbatim>\<open>expand_years\<close> works on.
\<close>

definition digits_val :: "string \<Rightarrow> nat" where
  "digits_val s = foldl (\<lambda>acc c. acc * 10 + digit_val c) 0 s"






section \<open>The data model\<close>

text \<open>
  A JSON value, as the remote interface and the product documents carry it. A Python
  dictionary is an association list in insertion order.
\<close>

datatype json =
  JNull
  | JBool bool
  | JInt int
  | JNum real
  | JStr string
  | JList "json list"
  | JDict "(string \<times> json) list"

text \<open>Python truthiness of a value.\<close>

fun truthy :: "json \<Rightarrow> bool" where
  "truthy JNull = False"
| "truthy (JBool b) = b"
| "truthy (JInt i) = (i \<noteq> 0)"
| "truthy (JNum x) = (x \<noteq> 0)"
| "truthy (JStr s) = (s \<noteq> [])"
| "truthy (JList xs) = (xs \<noteq> [])"
| "truthy (JDict kv) = (kv \<noteq> [])"

text \<open>\<^verbatim>\<open>d.get(k)\<close> and \<^verbatim>\<open>d[k] = v\<close> on a dictionary.\<close>

definition dict_get :: "string \<Rightarrow> (string \<times> json) list \<Rightarrow> json" where
  "dict_get k d = (case map_of d k of Some v \<Rightarrow> v | None \<Rightarrow> JNull)"

fun dict_set :: "string \<Rightarrow> 'v \<Rightarrow> (string \<times> 'v) list \<Rightarrow> (string \<times> 'v) list" where
  "dict_set k v [] = [(k, v)]"
| "dict_set k v ((k', v') # d) = (if k' = k then (k, v) # d else (k', v') # dict_set k v d)"

text \<open>
  A WooCommerce Product document is the dictionary of its fields. The class itself
  (\<^verbatim>\<open>woocommerce_product.py\<close>) is outside the module; the module reads and writes the
  fields \<^verbatim>\<open>name\<close>, \<^verbatim>\<open>id\<close>, \<^verbatim>\<open>woocommerce_name\<close>, \<^verbatim>\<open>woocommerce_server\<close>,
  \<^verbatim>\<open>woocommerce_id\<close> and \<^verbatim>\<open>woocommerce_date_modified\<close>.
\<close>

type_synonym wc_product = "(string \<times> json) list"

text \<open>
  The rows of the local database the module reads. A text field that the code only
  tests for truth or reads as \<^verbatim>\<open>x or ""\<close> is a string, empty when it is not set.
  A point in time is an integer, and \<open>JInt\<close> of it inside a document.
\<close>

record wc_server =
  server_name :: string
  woocommerce_server_url :: string
  api_consumer_key :: string
  api_consumer_secret :: string
  enable_sync :: bool
  enable_price_list_sync :: bool
  price_list :: string
  item_field_map :: "(string \<times> string) list"

text \<open>
  The sync link: a row of \<^verbatim>\<open>Item WooCommerce Server\<close>, child of an item.
  \<open>erpnext_field_name\<close> and \<open>woocommerce_field_name\<close> are the two components of a
  pair of \<open>item_field_map\<close> above.
\<close>

record sync_link =
  link_name :: string
  idx :: nat
  woocommerce_server :: string
  woocommerce_id :: string
  enabled :: int
  woocommerce_last_sync_hash :: json
  link_modified :: int

record compat_row =
  brand :: string
  model :: string
  years :: string
  fuel :: string
  engine_size :: string

record attr_row =
  name1 :: string
  attr_values :: string
  visible :: bool

record item =
  item_code :: string
  item_name :: string
  modified :: int
  custom_disable_sync :: int
  custom_disable_sync_if_not_in_stock :: int
  woocommerce_servers :: "sync_link list"
  custom_woo_image_url :: string
  custom_shipping_class :: string
  custom_woo_attribuetes :: "attr_row list"
  custom_compatibility :: "compat_row list"
  category :: string
  sub_category :: string
  custom_offer_categories :: "string list"
  has_variants :: bool
  attributes :: "string list"
  standard_rate :: real
  other_fields :: "(string \<times> json) list"

record bundle_row =
  row_item_code :: string
  qty :: real
  row_description :: string

record product_bundle =
  bundle_name :: string
  new_item_code :: string
  bundle_description :: string
  bundle_items :: "bundle_row list"

record bin =
  bin_item_code :: string
  warehouse :: string
  actual_qty :: real

record item_price =
  price_item_code :: string
  price_list_name :: string
  price_list_rate :: real
  valid_upto :: "int option"

record invoice_line =
  parent :: string
  parenttype :: string
  line_item_code :: string

record item_attribute =
  attribute_name :: string
  item_attribute_values :: "string list"

record database =
  servers :: "wc_server list"
  items :: "item list"
  bundles :: "product_bundle list"
  translation_rows :: "(string \<times> string) list"
  bins :: "bin list"
  item_prices :: "item_price list"
  sales_invoice_items :: "invoice_line list"
  item_attributes :: "item_attribute list"
  now :: int

text \<open>
  Every call that leaves the process. The first four are made by this module
  (\<^verbatim>\<open>requests.put\<close> in \<^verbatim>\<open>push_wc_product\<close>, \<^verbatim>\<open>self.wcapi.get\<close> and \<^verbatim>\<open>self.wcapi.post\<close> in
  \<^verbatim>\<open>get_or_create_wc_category\<close>, \<^verbatim>\<open>requests.get\<close> in \<^verbatim>\<open>get_or_create_wc_offer_category\<close>);
  the others are the operations of the WooCommerce Product document, which reach the
  remote store through code outside the module.
\<close>

datatype call =
  Put_product string json "(string \<times> json) list"
  | Get_categories string
  | Post_category "(string \<times> json) list"
  | Get_offer_category string string
  | Doc_load string
  | Doc_get_by_id string
  | Doc_get_list string string nat
  | Doc_insert wc_product
  | Doc_save wc_product

text \<open>
  What a call comes back with: an HTTP response (status code, and the body when it
  parses as JSON), a document, a page of documents, nothing, or an exception.
\<close>

datatype reply =
  Http nat "json option"
  | Doc wc_product
  | Docs "wc_product list"
  | Done
  | Raises

text \<open>
  What the module takes from outside. The remote store answers a call knowing the calls
  made before. \<open>jsonpath_valid\<close>, \<open>jsonpath_find\<close> and \<open>jsonpath_update\<close> are
  \<^verbatim>\<open>parse\<close>, \<^verbatim>\<open>find\<close> and \<^verbatim>\<open>update\<close> of the library \<^verbatim>\<open>jsonpath_ng\<close>; \<open>deserialize\<close> and
  \<open>serialize\<close> are the two methods of the product document of those names;
  \<open>rand_order\<close> is the order \<^verbatim>\<open>RAND()\<close> gives a query; \<open>str_float\<close> is \<^verbatim>\<open>str\<close> on a
  float and \<open>ascii_fold\<close> the NFKD normalisation followed by the ASCII encoding that
  drops what it cannot encode.
\<close>

record env =
  remote :: "call list \<Rightarrow> call \<Rightarrow> reply"
  jsonpath_valid :: "string \<Rightarrow> bool"
  jsonpath_find :: "string \<Rightarrow> json \<Rightarrow> json list"
  jsonpath_update :: "string \<Rightarrow> json \<Rightarrow> json \<Rightarrow> json"
  deserialize :: "wc_product \<Rightarrow> json"
  serialize :: "json \<Rightarrow> wc_product"
  rand_order :: "sync_link list \<Rightarrow> sync_link list"
  str_float :: "real \<Rightarrow> string"
  ascii_fold :: "string \<Rightarrow> string"

text \<open>
  The state a reconciliation changes: the calls made so far (oldest first), the titles
  written with \<^verbatim>\<open>frappe.log_error\<close>, the local database, and the jobs handed to
  \<^verbatim>\<open>frappe.enqueue\<close>.
\<close>

text \<open>
  \<^verbatim>\<open>ERPNextItemToSync\<close>, and the fields of a \<^verbatim>\<open>SynchroniseItem\<close> object: \<open>wcapi\<close> is
  the server the API client was built for in \<^verbatim>\<open>__init__\<close>, or nothing.
\<close>

record item_to_sync =
  item :: item
  item_woocommerce_server_idx :: nat

record synchronise_item =
  sync_item :: "item_to_sync option"
  woocommerce_product :: "wc_product option"
  wcapi :: "wc_server option"

record world =
  calls :: "call list"
  logs :: "string list"
  db :: database
  enqueued :: "synchronise_item list"

definition log_error :: "string \<Rightarrow> world \<Rightarrow> world" where
  "log_error title w = w\<lparr>logs := logs w @ [title]\<rparr>"

definition remote_call :: "env \<Rightarrow> call \<Rightarrow> world \<Rightarrow> reply \<times> world" where
  "remote_call e c w = (remote e (calls w) c, w\<lparr>calls := calls w @ [c]\<rparr>)"

section \<open>Helpers of the synchronisation class\<close>

text \<open>\<^verbatim>\<open>self.item_woocommerce_server\<close>: the row at position \<open>idx - 1\<close>; position \<open>-1\<close> is the last row.\<close>

definition item_woocommerce_server :: "item_to_sync \<Rightarrow> exn + sync_link" where
  "item_woocommerce_server its =
     (let rows = woocommerce_servers (item its); i = item_woocommerce_server_idx its in
      if i = 0 then (if rows = [] then Inl IndexError else Inr (last rows))
      else if i \<le> length rows then Inr (rows ! (i - 1))
      else Inl IndexError)"

text \<open>\<^verbatim>\<open>frappe.get_doc("Item", code)\<close> and the first \<^verbatim>\<open>Product Bundle\<close> of an item code.\<close>

definition get_item :: "database \<Rightarrow> string \<Rightarrow> item option" where
  "get_item d code = find (\<lambda>i. item_code i = code) (items d)"

definition find_bundle :: "database \<Rightarrow> string \<Rightarrow> product_bundle option" where
  "find_bundle d code = find (\<lambda>b. new_item_code b = code) (bundles d)"

definition get_server :: "database \<Rightarrow> string \<Rightarrow> wc_server option" where
  "get_server d n = find (\<lambda>s. server_name s = n) (servers d)"

text \<open>\<^verbatim>\<open>frappe.get_all("WooCommerce Server", filters={"enable_sync": 1}, limit=1)\<close>.\<close>

definition enabled_servers :: "database \<Rightarrow> wc_server list" where
  "enabled_servers d = take 1 (filter enable_sync (servers d))"

text \<open>\<^verbatim>\<open>s.lower()\<close> below code point 256, \<^verbatim>\<open>s.strip(c)\<close>, \<^verbatim>\<open>s.rstrip(c)\<close> and \<^verbatim>\<open>s.replace(old, new)\<close>.\<close>

definition lower_char :: "char \<Rightarrow> char" where
  "lower_char c =
     (let n = (of_char c :: nat) in
      if (65 \<le> n \<and> n \<le> 90) \<or> (192 \<le> n \<and> n \<le> 222 \<and> n \<noteq> 215) then char_of (n + 32) else c)"

definition lower :: "string \<Rightarrow> string" where
  "lower s = map lower_char s"

definition rstrip_char :: "char \<Rightarrow> string \<Rightarrow> string" where
  "rstrip_char c s = rev (dropWhile (\<lambda>x. x = c) (rev s))"

definition strip_char :: "char \<Rightarrow> string \<Rightarrow> string" where
  "strip_char c s = rstrip_char c (dropWhile (\<lambda>x. x = c) s)"

function replace :: "string \<Rightarrow> string \<Rightarrow> string \<Rightarrow> string" where
  "replace old new s =
     (if s = [] \<or> old = [] then s
      else if take (length old) s = old then new @ replace old new (drop (length old) s)
      else hd s # replace old new (tl s))"
  by pat_completeness auto
termination
  by (relation "measure (\<lambda>(old, new, s). length s)") (auto simp: neq_Nil_conv)

declare replace.simps [simp del]

text \<open>\<^verbatim>\<open>int(x)\<close> on a float: towards zero.\<close>

definition int_of_float :: "real \<Rightarrow> int" where
  "int_of_float x = (if 0 \<le> x then \<lfloor>x\<rfloor> else \<lceil>x\<rceil>)"

text \<open>
  The maximal runs of characters with a property, in order: \<^verbatim>\<open>re.findall\<close> of a
  character class followed by \<^verbatim>\<open>+\<close>.
\<close>

fun runs :: "(char \<Rightarrow> bool) \<Rightarrow> string \<Rightarrow> string \<Rightarrow> string list" where
  "runs P cur [] = (if cur = [] then [] else [rev cur])"
| "runs P cur (c # cs) =
     (if P c then runs P (c # cur) cs
      else (if cur = [] then [] else [rev cur]) @ runs P [] cs)"

definition is_alnum :: "char \<Rightarrow> bool" where
  "is_alnum c =
     (let n = (of_char c :: nat) in
      (48 \<le> n \<and> n \<le> 57) \<or> (65 \<le> n \<and> n \<le> 90) \<or> (97 \<le> n \<and> n \<le> 122))"

subsection \<open>Product names\<close>

definition contains_arabic :: "string \<Rightarrow> bool" where
  "contains_arabic s = (\<exists>c \<in> set s. 1536 \<le> (of_char c :: nat) \<and> (of_char c :: nat) \<le> 1791)"

definition is_english_char :: "char \<Rightarrow> bool" where
  "is_english_char c = (is_alnum c \<or> c \<in> set ''-/()[]'' \<or> c = CHR 0x27 \<or> c = CHR 0x22
     \<or> c \<in> set ''.,&+'' \<or> is_space c)"

definition extract_english :: "string \<Rightarrow> string" where
  "extract_english s = strip (join '' '' (runs is_english_char [] s))"

definition clean_product_name :: "string \<Rightarrow> string" where
  "clean_product_name name0 =
     (let name = strip name0;
          english_part = extract_english name;
          has_arabic = contains_arabic name
      in if english_part \<noteq> [] \<and> has_arabic then english_part
         else if english_part \<noteq> [] \<and> \<not> has_arabic then english_part
         else name)"

subsection \<open>Translation\<close>

text \<open>
  \<^verbatim>\<open>translate_text\<close>: the \<^verbatim>\<open>translated_text\<close> of the first \<^verbatim>\<open>Translation\<close> row with the
  source text, or the source text when there is none or it is empty.
\<close>

definition translate_text :: "database \<Rightarrow> string \<Rightarrow> string" where
  "translate_text d arabic_text =
     (if arabic_text = [] then []
      else (case map_of (translation_rows d) arabic_text of
              None \<Rightarrow> arabic_text
            | Some translated \<Rightarrow> if translated \<noteq> [] then translated else arabic_text))"

section \<open>The compatibility builder\<close>

text \<open>
  The key \<^verbatim>\<open>f"add_compactable_details_{index}_{field}"\<close>, and the body of the loop of
  \<^verbatim>\<open>build_compatibility_data\<close> over the rows. The call of \<^verbatim>\<open>expand_years\<close> stands in
  \<^verbatim>\<open>try\<close> ... \<^verbatim>\<open>except Exception\<close>, which logs and leaves \<open>expanded_years\<close> empty.
\<close>

definition compat_key :: "nat \<Rightarrow> string \<Rightarrow> string" where
  "compat_key index field = ''add_compactable_details_'' @ str_nat index @ ''_'' @ field"

definition expanded_years_of :: "compat_row \<Rightarrow> world \<Rightarrow> string \<times> world" where
  "expanded_years_of row w =
     (if years row \<noteq> [] then
        (case expand_years (years row) of
           Inr ys \<Rightarrow> (join '','' ys, w)
         | Inl e \<Rightarrow> ([], log_error ''Error expanding years'' w))
      else ([], w))"

fun compat_rows ::
  "nat \<Rightarrow> compat_row list \<Rightarrow> (string \<times> string) list \<Rightarrow> world \<Rightarrow> (string \<times> string) list \<times> world" where
  "compat_rows index [] meta_data w = (meta_data, w)"
| "compat_rows index (row # rest) meta_data w =
     (let (expanded_years, w1) = expanded_years_of row w;
          d = db w1;
          meta_data = dict_set (compat_key index ''brand'') (translate_text d (brand row)) meta_data;
          meta_data = dict_set (compat_key index ''model'') (translate_text d (model row)) meta_data;
          meta_data = dict_set (compat_key index ''years'') expanded_years meta_data;
          meta_data = dict_set (compat_key index ''variant'') (fuel row) meta_data;
          meta_data = dict_set (compat_key index ''engine_size'') (engine_size row) meta_data
      in compat_rows (Suc index) rest meta_data w1)"

text \<open>The rows a bundle without rows of its own takes from its children.\<close>

fun child_compat :: "database \<Rightarrow> bundle_row list \<Rightarrow> exn + compat_row list" where
  "child_compat d [] = Inr []"
| "child_compat d (child # rest) =
     (case get_item d (row_item_code child) of
        None \<Rightarrow> Inl DoesNotExistError
      | Some child_item \<Rightarrow>
          (case child_compat d rest of
             Inl e \<Rightarrow> Inl e
           | Inr others \<Rightarrow> Inr (custom_compatibility child_item @ others)))"

definition build_compatibility_data ::
  "string \<Rightarrow> world \<Rightarrow> (exn + (string \<times> string) list \<times> nat) \<times> world" where
  "build_compatibility_data code w =
     (case get_item (db w) code of
        None \<Rightarrow> (Inl DoesNotExistError, w)
      | Some main_item \<Rightarrow>
          (let main_compat = custom_compatibility main_item;
               (entries, w1) =
                 (case find_bundle (db w) code of
                    Some bundle \<Rightarrow>
                      if main_compat = [] then
                        (child_compat (db w) (bundle_items bundle), log_error ''Bundle without comp'' w)
                      else (Inr main_compat, w)
                  | None \<Rightarrow> (Inr main_compat, w))
           in (case entries of
                 Inl e \<Rightarrow> (Inl e, w1)
               | Inr compatibility_entries \<Rightarrow>
                   if compatibility_entries = [] then (Inr ([], 0), w1)
                   else (let (meta_data, w2) = compat_rows 0 compatibility_entries [] w1
                         in (Inr (meta_data, length compatibility_entries), w2)))))"

text \<open>\<^verbatim>\<open>build_item_description\<close>: the title, then one line for each compatibility row.\<close>

definition meta_get :: "string \<Rightarrow> (string \<times> string) list \<Rightarrow> string" where
  "meta_get k d = (case map_of d k of Some v \<Rightarrow> v | None \<Rightarrow> [])"

definition part_line :: "(string \<times> string) list \<Rightarrow> nat \<Rightarrow> string" where
  "part_line meta_data i =
     ''Brand - '' @ meta_get (compat_key i ''brand'') meta_data
     @ ''&nbsp;&nbsp;&nbsp;&nbsp;&nbsp;&nbsp;''
     @ ''Model - '' @ meta_get (compat_key i ''model'') meta_data
     @ ''&nbsp;&nbsp;&nbsp;- '' @ meta_get (compat_key i ''years'') meta_data"

definition build_item_description :: "string \<Rightarrow> world \<Rightarrow> (exn + string) \<times> world" where
  "build_item_description code w =
     (case get_item (db w) code of
        None \<Rightarrow> (Inl DoesNotExistError, w)
      | Some it \<Rightarrow>
          (let title = (if item_name it \<noteq> [] then item_name it else item_code it) in
           (case build_compatibility_data code w of
              (Inl e, w1) \<Rightarrow> (Inl e, w1)
            | (Inr (meta_data, count), w1) \<Rightarrow>
                if count = 0 then (Inr title, w1)
                else (Inr (join [CHR 0x0A] (title # map (part_line meta_data) [0..<count])), w1))))"

section \<open>Pushing to the remote product\<close>

text \<open>
  The values of the \<^verbatim>\<open>meta\<close> dictionaries this module builds are strings and integers;
  \<^verbatim>\<open>push_wc_product\<close> takes a dictionary, a list, or anything else as \<^verbatim>\<open>meta\<close>.
\<close>

datatype scalar = SStr string | SInt int

fun str_scalar :: "scalar \<Rightarrow> string" where
  "str_scalar (SStr s) = s"
| "str_scalar (SInt i) = py_str i"

datatype meta_arg = Meta_dict "(string \<times> scalar) list" | Meta_list "json list" | Meta_other

definition meta_entry :: "string \<times> scalar \<Rightarrow> json" where
  "meta_entry kv = JDict [(''key'', JStr (fst kv)), (''value'', JStr (str_scalar (snd kv)))]"

text \<open>
  \<^verbatim>\<open>push_wc_product(product_id, meta=None, **fields)\<close>. Without an enabled server the
  name \<^verbatim>\<open>WC_API_URL\<close> is unbound where the URL is built. The request and the reading of
  its answer stand in \<^verbatim>\<open>try\<close> ... \<^verbatim>\<open>except Exception\<close>.
\<close>

definition payload_of ::
  "meta_arg option \<Rightarrow> (string \<times> json) list \<Rightarrow> world \<Rightarrow> (string \<times> json) list \<times> world" where
  "payload_of meta kwargs w =
     (let payload = filter (\<lambda>kv. snd kv \<noteq> JNull) kwargs in
      (case meta of
         None \<Rightarrow> (payload, w)
       | Some (Meta_dict m) \<Rightarrow> (dict_set ''meta_data'' (JList (map meta_entry m)) payload, w)
       | Some (Meta_list l) \<Rightarrow> (dict_set ''meta_data'' (JList l) payload, w)
       | Some Meta_other \<Rightarrow> (payload, log_error ''push_wc_product: unsupported meta type'' w)))"

text \<open>
  The block \<^verbatim>\<open>try: resp = requests.put(...)\<close> ... \<^verbatim>\<open>except Exception\<close>: a status other
  than 200 and 201, a body that is not JSON, and an exception of the request each log
  and give the empty dictionary.
\<close>

definition put_payload ::
  "env \<Rightarrow> string \<Rightarrow> json \<Rightarrow> (string \<times> json) list \<Rightarrow> world \<Rightarrow> json \<times> world" where
  "put_payload e url product_id payload w =
     (case remote_call e (Put_product url product_id payload) w of
        (Http status body, w1) \<Rightarrow>
          if status \<noteq> 200 \<and> status \<noteq> 201 then (JDict [], log_error ''Woo API error '' w1)
          else (case body of
                  Some j \<Rightarrow> (j, w1)
                | None \<Rightarrow> (JDict [], log_error ''Woo API exception'' w1))
      | (r, w1) \<Rightarrow> (JDict [], log_error ''Woo API exception'' w1))"

definition push_wc_product ::
  "env \<Rightarrow> json \<Rightarrow> meta_arg option \<Rightarrow> (string \<times> json) list \<Rightarrow> world \<Rightarrow> (exn + json) \<times> world" where
  "push_wc_product e product_id meta kwargs w =
     (case enabled_servers (db w) of
        [] \<Rightarrow> (Inl UnboundLocalError, w)
      | server # others \<Rightarrow>
          (let url = rstrip_char (CHR ''/'') (woocommerce_server_url server) @ ''/wp-json/wc/v3/products'';
               (payload, w1) = payload_of meta kwargs w
           in if payload = [] then
                (Inr (JDict []), log_error ''push_wc_product called with no fields or meta'' w1)
              else (let (r, w2) = put_payload e url product_id payload w1 in (Inr r, w2))))"

section \<open>The category resolver\<close>

text \<open>
  Iterating over a JSON value as Python does: a list gives its elements, a dictionary its
  keys, a string its characters; anything else is not iterable.
\<close>

fun iterate :: "json \<Rightarrow> json list option" where
  "iterate (JList xs) = Some xs"
| "iterate (JDict kv) = Some (map (\<lambda>p. JStr (fst p)) kv)"
| "iterate (JStr s) = Some (map (\<lambda>c. JStr [c]) s)"
| "iterate _ = None"

datatype 'a lookup = Found 'a | Not_found | Lookup_error

text \<open>
  The loop \<^verbatim>\<open>for cat in existing: if cat["name"].lower() == name.lower(): return cat["id"]\<close>.
  An element that is no dictionary, has no string under \<^verbatim>\<open>"name"\<close>, or matches and has
  no \<^verbatim>\<open>"id"\<close>, raises.
\<close>

fun find_category :: "string \<Rightarrow> json list \<Rightarrow> json lookup" where
  "find_category name [] = Not_found"
| "find_category name (cat # cats) =
     (case cat of
        JDict d \<Rightarrow>
          (case map_of d ''name'' of
             Some (JStr n) \<Rightarrow>
               if lower n = lower name then
                 (case map_of d ''id'' of Some i \<Rightarrow> Found i | None \<Rightarrow> Lookup_error)
               else find_category name cats
           | _ \<Rightarrow> Lookup_error)
      | _ \<Rightarrow> Lookup_error)"

text \<open>
  \<^verbatim>\<open>get_or_create_wc_category(name, parent_id=0)\<close>. The whole body stands in
  \<^verbatim>\<open>try\<close> ... \<^verbatim>\<open>except Exception\<close>, which logs and returns \<^verbatim>\<open>None\<close>. Nothing is kept
  between two calls: every call searches the remote store again.
\<close>

definition category_failed :: "world \<Rightarrow> json \<times> world" where
  "category_failed w = (JNull, log_error ''Error creating/fetching category'' w)"

text \<open>What the loop finds in the answer to the search; \<open>Lookup_error\<close> is any exception.\<close>

definition matching_category :: "string \<Rightarrow> reply \<Rightarrow> json lookup" where
  "matching_category name r =
     (case r of
        Http status (Some existing) \<Rightarrow>
          (case iterate existing of
             None \<Rightarrow> Lookup_error
           | Some cats \<Rightarrow> find_category name cats)
      | _ \<Rightarrow> Lookup_error)"

definition create_wc_category :: "env \<Rightarrow> string \<Rightarrow> json \<Rightarrow> world \<Rightarrow> json \<times> world" where
  "create_wc_category e name parent_id w =
     (let new_cat = [(''name'', JStr name),
                     (''parent'', if truthy parent_id then parent_id else JInt 0)]
      in (case remote_call e (Post_category new_cat) w of
            (Http st (Some (JDict res)), w1) \<Rightarrow> (dict_get ''id'' res, w1)
          | (r, w1) \<Rightarrow> category_failed w1))"

definition get_or_create_wc_category ::
  "env \<Rightarrow> synchronise_item \<Rightarrow> string \<Rightarrow> json \<Rightarrow> world \<Rightarrow> json \<times> world" where
  "get_or_create_wc_category e self name parent_id w =
     (if wcapi self = None then category_failed w
      else
        (let (r, w1) = remote_call e (Get_categories name) w in
         (case matching_category name r of
            Lookup_error \<Rightarrow> category_failed w1
          | Found i \<Rightarrow> (i, w1)
          | Not_found \<Rightarrow> create_wc_category e name parent_id w1)))"

subsection \<open>Offer categories\<close>

fun sub_non_alnum :: "string \<Rightarrow> string" where
  "sub_non_alnum [] = []"
| "sub_non_alnum (c # cs) =
     (if is_alnum c then c # sub_non_alnum cs
      else (case cs of
              d # _ \<Rightarrow> if is_alnum d then CHR ''-'' # sub_non_alnum cs else sub_non_alnum cs
            | [] \<Rightarrow> ''-''))"

definition slugify :: "env \<Rightarrow> string \<Rightarrow> string" where
  "slugify e v = lower (strip_char (CHR ''-'') (sub_non_alnum (ascii_fold e v)))"

text \<open>\<^verbatim>\<open>cat.get(key, "")\<close> followed by \<^verbatim>\<open>.strip().lower()\<close>: raises unless the value is a string.\<close>

definition text_field :: "string \<Rightarrow> (string \<times> json) list \<Rightarrow> string option" where
  "text_field k d =
     (case map_of d k of
        None \<Rightarrow> Some []
      | Some (JStr s) \<Rightarrow> Some (lower (strip s))
      | Some _ \<Rightarrow> None)"

fun find_offer_category :: "string \<Rightarrow> string \<Rightarrow> json list \<Rightarrow> json lookup" where
  "find_offer_category name search_slug [] = Not_found"
| "find_offer_category name search_slug (cat # cats) =
     (case cat of
        JDict d \<Rightarrow>
          (case text_field ''name'' d of
             None \<Rightarrow> Lookup_error
           | Some cat_name \<Rightarrow>
               (case text_field ''slug'' d of
                  None \<Rightarrow> Lookup_error
                | Some cat_slug \<Rightarrow>
                    if cat_name = lower name \<or> cat_slug = search_slug then
                      (case map_of d ''id'' of Some i \<Rightarrow> Found i | None \<Rightarrow> Lookup_error)
                    else find_offer_category name search_slug cats))
      | _ \<Rightarrow> Lookup_error)"

definition offer_failed :: "world \<Rightarrow> json \<times> world" where
  "offer_failed w = (JNull, log_error ''Error fetching offer categories'' w)"

definition matching_offer_category :: "string \<Rightarrow> string \<Rightarrow> reply \<Rightarrow> json lookup" where
  "matching_offer_category name search_slug r =
     (case r of
        Http status (Some existing) \<Rightarrow>
          (case iterate existing of
             None \<Rightarrow> Lookup_error
           | Some cats \<Rightarrow> find_offer_category name search_slug cats)
      | _ \<Rightarrow> Lookup_error)"

definition get_or_create_wc_offer_category ::
  "env \<Rightarrow> synchronise_item \<Rightarrow> string \<Rightarrow> world \<Rightarrow> json \<times> world" where
  "get_or_create_wc_offer_category e self name w =
     (let search_slug = slugify e name in
      (case enabled_servers (db w) of
         [] \<Rightarrow> offer_failed w
       | server # others \<Rightarrow>
           if wcapi self = None then offer_failed w
           else
             (let wc_base_url = rstrip_char (CHR ''/'') (woocommerce_server_url server);
                  (r, w1) = remote_call e (Get_offer_category wc_base_url search_slug) w
              in (case matching_offer_category name search_slug r of
                    Lookup_error \<Rightarrow> offer_failed w1
                  | Found i \<Rightarrow> (i, w1)
                  | Not_found \<Rightarrow>
                      (JNull, log_error ''Offer category not found. Manual creation needed.'' w1)))))"

section \<open>The field mapper\<close>

text \<open>\<^verbatim>\<open>s.split(sep)[0]\<close> for a non-empty separator.\<close>

fun first_piece :: "string \<Rightarrow> string \<Rightarrow> string" where
  "first_piece sep [] = []"
| "first_piece sep (c # cs) =
     (if take (length sep) (c # cs) = sep then [] else c # first_piece sep cs)"

text \<open>
  \<^verbatim>\<open>getattr(item.item, name)\<close>: the fields of the record by their names, any other field
  from \<open>other_fields\<close>; \<open>None\<close> is the \<^verbatim>\<open>AttributeError\<close>.
\<close>

definition item_getattr :: "item \<Rightarrow> string \<Rightarrow> json option" where
  "item_getattr it n =
     (if n = ''item_code'' then Some (JStr (item_code it))
      else if n = ''item_name'' then Some (JStr (item_name it))
      else if n = ''modified'' then Some (JInt (modified it))
      else if n = ''custom_disable_sync'' then Some (JInt (custom_disable_sync it))
      else if n = ''custom_disable_sync_if_not_in_stock'' then
        Some (JInt (custom_disable_sync_if_not_in_stock it))
      else if n = ''custom_woo_image_url'' then Some (JStr (custom_woo_image_url it))
      else if n = ''custom_shipping_class'' then Some (JStr (custom_shipping_class it))
      else if n = ''category'' then Some (JStr (category it))
      else if n = ''sub_category'' then Some (JStr (sub_category it))
      else if n = ''has_variants'' then Some (JBool (has_variants it))
      else if n = ''standard_rate'' then Some (JNum (standard_rate it))
      else map_of (other_fields it) n)"

text \<open>
  The loop of \<^verbatim>\<open>set_product_fields\<close> over the field map: the tree of the product with
  its fields deserialised, and whether a value was written.
\<close>

fun map_fields ::
  "env \<Rightarrow> item \<Rightarrow> wc_product \<Rightarrow> (string \<times> string) list \<Rightarrow> json \<Rightarrow> bool \<Rightarrow> exn + json \<times> bool" where
  "map_fields e it p [] tree dirty = Inr (tree, dirty)"
| "map_fields e it p ((erpnext_field_name, woocommerce_field_name) # rest) tree dirty =
     (case item_getattr it (first_piece '' | '' erpnext_field_name) of
        None \<Rightarrow> Inl AttributeError
      | Some erpnext_item_field_value \<Rightarrow>
          if \<not> jsonpath_valid e woocommerce_field_name then Inl JsonPathParserError
          else
            (case jsonpath_find e woocommerce_field_name tree of
               [] \<Rightarrow>
                 if truthy (dict_get ''name'' p) then Inl ValueError
                 else map_fields e it p rest tree dirty
             | woocommerce_product_field_value # _ \<Rightarrow>
                 if erpnext_item_field_value \<noteq> woocommerce_product_field_value then
                   map_fields e it p rest
                     (jsonpath_update e woocommerce_field_name tree erpnext_item_field_value) True
                 else map_fields e it p rest tree dirty))"

text \<open>
  \<^verbatim>\<open>set_product_fields(woocommerce_product, item)\<close>: whether the product was changed,
  and the product, serialised again only when it was.
\<close>

definition product_server :: "database \<Rightarrow> wc_product \<Rightarrow> wc_server option" where
  "product_server d p =
     (case dict_get ''woocommerce_server'' p of JStr s \<Rightarrow> get_server d s | _ \<Rightarrow> None)"

definition set_product_fields ::
  "env \<Rightarrow> wc_product \<Rightarrow> item_to_sync \<Rightarrow> world \<Rightarrow> exn + bool \<times> wc_product" where
  "set_product_fields e wc_product its w =
     (case product_server (db w) wc_product of
        None \<Rightarrow> Inl DoesNotExistError
      | Some wc_server \<Rightarrow>
          if item_field_map wc_server \<noteq> [] then
            (case map_fields e (item its) wc_product (item_field_map wc_server)
                    (deserialize e wc_product) False of
               Inl x \<Rightarrow> Inl x
             | Inr (tree, wc_product_dirty) \<Rightarrow>
                 Inr (wc_product_dirty,
                      if wc_product_dirty then serialize e tree else wc_product))
          else Inr (False, wc_product))"

section \<open>Updating the remote product\<close>

text \<open>
  A statement of \<^verbatim>\<open>update_woocommerce_product\<close> that can raise is a \<open>step\<close>.
  \<open>try_except title s\<close> is \<^verbatim>\<open>try: s except Exception: frappe.log_error(title)\<close>;
  \<open>then_log title s\<close> is \<open>s\<close> followed by \<^verbatim>\<open>frappe.log_error(title)\<close>; \<open>run_steps\<close>
  runs statements in order and stops at the first that raises. Log titles are written
  without their pictographs.
\<close>

type_synonym step = "world \<Rightarrow> (exn + unit) \<times> world"

definition try_except :: "string \<Rightarrow> step \<Rightarrow> step" where
  "try_except title s w =
     (case s w of (Inl x, w1) \<Rightarrow> (Inr (), log_error title w1) | (Inr u, w1) \<Rightarrow> (Inr u, w1))"

definition then_log :: "string \<Rightarrow> step \<Rightarrow> step" where
  "then_log title s w =
     (case s w of (Inl x, w1) \<Rightarrow> (Inl x, w1) | (Inr u, w1) \<Rightarrow> (Inr u, log_error title w1))"

fun run_steps :: "step list \<Rightarrow> step" where
  "run_steps [] w = (Inr (), w)"
| "run_steps (s # ss) w =
     (case s w of (Inl x, w1) \<Rightarrow> (Inl x, w1) | (Inr u, w1) \<Rightarrow> run_steps ss w1)"

text \<open>A call of \<^verbatim>\<open>self.push_wc_product\<close> whose result is not used.\<close>

definition push :: "env \<Rightarrow> json \<Rightarrow> meta_arg option \<Rightarrow> (string \<times> json) list \<Rightarrow> step" where
  "push e product_id meta kwargs w =
     (case push_wc_product e product_id meta kwargs w of
        (Inl x, w1) \<Rightarrow> (Inl x, w1)
      | (Inr r, w1) \<Rightarrow> (Inr (), w1))"

subsection \<open>The field groups\<close>

definition push_sku :: "env \<Rightarrow> json \<Rightarrow> item \<Rightarrow> step" where
  "push_sku e product_id it = push e product_id None [(''sku'', JStr (item_code it))]"

definition push_images :: "env \<Rightarrow> json \<Rightarrow> item \<Rightarrow> step" where
  "push_images e product_id it w =
     (let image_urls = strip (custom_woo_image_url it) in
      if image_urls \<noteq> [] then
        (let image_list = filter (\<lambda>u. u \<noteq> []) (map strip (split_on (CHR '','') image_urls)) in
         if image_list \<noteq> [] then
           push e product_id None
             [(''images'', JList (map (\<lambda>u. JDict [(''src'', JStr u)]) image_list))] w
         else (Inr (), w))
      else (Inr (), w))"

definition push_description :: "env \<Rightarrow> json \<Rightarrow> item \<Rightarrow> step" where
  "push_description e product_id it w =
     (case build_item_description (item_code it) w of
        (Inl x, w1) \<Rightarrow> (Inl x, w1)
      | (Inr description_text, w1) \<Rightarrow>
          push e product_id None [(''description'', JStr description_text)] w1)"

definition push_shipping_class :: "env \<Rightarrow> json \<Rightarrow> item \<Rightarrow> step" where
  "push_shipping_class e product_id it w =
     (let shipping_class = custom_shipping_class it in
      if shipping_class \<noteq> [] then
        try_except ''Failed to push shipping class''
          (then_log ''Shipping class synced''
             (push e product_id None [(''shipping_class'', JStr shipping_class)])) w
      else (Inr (), w))"

text \<open>The loop over \<^verbatim>\<open>custom_woo_attribuetes\<close>: the attribute list, and the entries it logs.\<close>

fun wc_attributes_of :: "attr_row list \<Rightarrow> world \<Rightarrow> json list \<times> world" where
  "wc_attributes_of [] w = ([], w)"
| "wc_attributes_of (attr # rest) w =
     (let d = db w;
          translated_name = translate_text d (name1 attr);
          (options, w1) =
            (if translated_name = ''Compatible'' then
               (let w0 = log_error ''raw_options'' w in
                if attr_values attr \<noteq> [] then
                  ([translate_text d (attr_values attr)], log_error ''translated_opt'' w0)
                else ([], w0))
             else
               (map (translate_text d)
                  (filter (\<lambda>opt. opt \<noteq> []) (map strip (split_on (CHR '','') (attr_values attr)))),
                w));
          (others, w2) = wc_attributes_of rest w1
      in (JDict [(''id'', JInt 0), (''name'', JStr translated_name),
                 (''visible'', JBool (visible attr)), (''variation'', JBool False),
                 (''options'', JList (map JStr options))] # others, w2))"

definition push_attributes :: "env \<Rightarrow> json \<Rightarrow> item \<Rightarrow> step" where
  "push_attributes e product_id it w =
     (let (wc_attributes, w1) = wc_attributes_of (custom_woo_attribuetes it) w in
      if wc_attributes \<noteq> [] then push e product_id None [(''attributes'', JList wc_attributes)] w1
      else (Inr (), w1))"

text \<open>The stock aggregator.\<close>

definition item_bins :: "database \<Rightarrow> string \<Rightarrow> bin list" where
  "item_bins d code = filter (\<lambda>b. bin_item_code b = code) (bins d)"

definition branch_name :: "string \<Rightarrow> string" where
  "branch_name wh =
     replace '' '' ''-'' (strip (replace '' - ame'' [] (replace ''warehouse'' [] (lower wh))))
     @ ''-branch''"

fun branch_meta :: "nat \<Rightarrow> bin list \<Rightarrow> (string \<times> scalar) list \<Rightarrow> (string \<times> scalar) list" where
  "branch_meta index [] meta_data = meta_data"
| "branch_meta index (b # bs) meta_data =
     branch_meta (Suc index) bs
       (dict_set (''branch_stock_'' @ str_nat index @ ''_stock_qty'') (SInt (int_of_float (actual_qty b)))
          (dict_set (''branch_stock_'' @ str_nat index @ ''_branch'') (SStr (branch_name (warehouse b)))
             meta_data))"

definition push_branch_stock :: "env \<Rightarrow> json \<Rightarrow> item \<Rightarrow> step" where
  "push_branch_stock e product_id it =
     try_except ''Branch Stock Sync Failed''
       (\<lambda>w. let branch_entries = filter (\<lambda>b. actual_qty b > 0) (item_bins (db w) (item_code it));
                meta_data = dict_set ''branch_stock'' (SInt (int (length branch_entries)))
                              (branch_meta 0 branch_entries [])
            in if meta_data \<noteq> [] then
                 then_log ''Branch Stock Synced'' (push e product_id (Some (Meta_dict meta_data)) []) w
               else (Inr (), log_error ''No Branch Stock Found'' w))"

definition push_stock :: "env \<Rightarrow> json \<Rightarrow> item \<Rightarrow> step" where
  "push_stock e product_id it =
     try_except ''Stock sync failed''
       (\<lambda>w. let total_qty = sum_list (map actual_qty (item_bins (db w) (item_code it)));
                stock_status = (if total_qty > 0 then ''instock'' else ''onbackorder'');
                backorders = (if total_qty > 0 then ''no'' else ''notify'')
            in then_log ''Stock synced''
                 (push e product_id None
                    [(''manage_stock'', JBool True),
                     (''stock_quantity'', JInt (int_of_float total_qty)),
                     (''stock_status'', JStr stock_status),
                     (''backorders'', JStr backorders)]) w)"

text \<open>The first \<^verbatim>\<open>Item Price\<close> of the item on the list \<^verbatim>\<open>Standard Selling\<close>, or \<open>0.0\<close>.\<close>

definition standard_selling_price :: "database \<Rightarrow> string \<Rightarrow> real" where
  "standard_selling_price d code =
     (case filter (\<lambda>p. price_item_code p = code \<and> price_list_name p = ''Standard Selling'')
             (item_prices d) of
        [] \<Rightarrow> 0
      | p # _ \<Rightarrow> price_list_rate p)"

definition push_price :: "env \<Rightarrow> json \<Rightarrow> item \<Rightarrow> step" where
  "push_price e product_id it =
     try_except ''Price sync failed''
       (\<lambda>w. let price = standard_selling_price (db w) (item_code it) in
            then_log ''Price synced''
              (push e product_id None
                 [(''regular_price'', JStr (str_float e price)),
                  (''_price'', JStr (str_float e price))]) w)"

definition push_spare_part :: "env \<Rightarrow> json \<Rightarrow> item \<Rightarrow> step" where
  "push_spare_part e product_id it =
     push e product_id
       (Some (Meta_dict [(''mark_spare_part'',
                          SStr (if custom_compatibility it \<noteq> [] then ''1'' else ''0''))])) []"

definition push_compatibility :: "env \<Rightarrow> json \<Rightarrow> item \<Rightarrow> step" where
  "push_compatibility e product_id it w =
     (case build_compatibility_data (item_code it) w of
        (Inl x, w1) \<Rightarrow> (Inl x, w1)
      | (Inr (meta_data, count), w1) \<Rightarrow>
          if count > 0 then
            then_log ''Compatibility Synced''
              (push e product_id
                 (Some (Meta_dict
                    (dict_set ''_add_compactable_details'' (SStr ''field_68e38a56a4d82'')
                       (dict_set ''add_compactable_details'' (SStr (str_nat count))
                          (map (\<lambda>kv. (fst kv, SStr (snd kv))) meta_data))))) []) w1
          else (Inr (), log_error ''No Compatibility Found'' w1))"

text \<open>
  The categories: the main category, then the sub-category under it. The list of
  \<^verbatim>\<open>{"id": ...}\<close> is made duplicate-free through a set of tuples, which raises on an id
  that cannot be hashed.
\<close>

fun hashable :: "json \<Rightarrow> bool" where
  "hashable (JList xs) = False"
| "hashable (JDict kv) = False"
| "hashable _ = True"

definition category_ids ::
  "env \<Rightarrow> synchronise_item \<Rightarrow> item \<Rightarrow> world \<Rightarrow> json list \<times> world" where
  "category_ids e self it w =
     (let main_cat = strip (category it); sub_cat = strip (sub_category it) in
      if main_cat \<noteq> [] then
        (let (parent_id, w1) = get_or_create_wc_category e self main_cat (JInt 0) w in
         if sub_cat \<noteq> [] then
           (let (child_id, w2) = get_or_create_wc_category e self sub_cat parent_id w1
            in ([parent_id, child_id], w2))
         else ([parent_id], w1))
      else ([], w))"

definition push_categories :: "env \<Rightarrow> synchronise_item \<Rightarrow> json \<Rightarrow> item \<Rightarrow> step" where
  "push_categories e self product_id it w =
     (let (ids, w1) = category_ids e self it w in
      if \<not> list_all hashable ids then (Inl TypeError, w1)
      else
        (let categories = remdups (map (\<lambda>i. JDict [(''id'', i)]) ids) in
         if categories \<noteq> [] then
           try_except ''Failed to sync categories (EN)''
             (then_log ''Categories Synced (EN)''
                (push e product_id None [(''categories'', JList categories)])) w1
         else (Inr (), w1)))"

fun offer_ids :: "env \<Rightarrow> synchronise_item \<Rightarrow> string list \<Rightarrow> world \<Rightarrow> json list \<times> world" where
  "offer_ids e self [] w = ([], w)"
| "offer_ids e self (offer_name # rest) w =
     (let (offer_id, w1) = get_or_create_wc_offer_category e self offer_name w;
          (others, w2) = offer_ids e self rest w1
      in (offer_id # others, w2))"

definition push_offer_categories :: "env \<Rightarrow> synchronise_item \<Rightarrow> json \<Rightarrow> item \<Rightarrow> step" where
  "push_offer_categories e self product_id it w =
     (let (offer_categories, w1) = offer_ids e self (custom_offer_categories it) w in
      (case push_wc_product e product_id None [(''offer_category'', JList offer_categories)] w1 of
         (Inl x, w2) \<Rightarrow> (Inl x, w2)
       | (Inr r, w2) \<Rightarrow> (Inr (), if truthy r then log_error ''offer category pushed'' w2 else w2)))"

section \<open>The recommendation builder\<close>

text \<open>
  The rows of \<^verbatim>\<open>Sales Invoice Item\<close> stand in \<open>sales_invoice_items\<close> in the order the
  database returns them. \<open>uniq\<close> keeps the first of equal elements (\<^verbatim>\<open>distinct=True\<close>);
  \<open>counter\<close> is \<^verbatim>\<open>collections.Counter\<close> on a list, its keys in the order met first, and
  \<open>most_common n\<close> its method of that name: the \<open>n\<close> largest counts, equal counts in the
  order of the counter.
\<close>

fun uniq :: "'a list \<Rightarrow> 'a list \<Rightarrow> 'a list" where
  "uniq seen [] = []"
| "uniq seen (x # xs) = (if x \<in> set seen then uniq seen xs else x # uniq (x # seen) xs)"

fun counter_add :: "'a \<Rightarrow> ('a \<times> nat) list \<Rightarrow> ('a \<times> nat) list" where
  "counter_add x [] = [(x, 1)]"
| "counter_add x ((y, n) # c) = (if y = x then (y, Suc n) # c else (y, n) # counter_add x c)"

definition counter :: "'a list \<Rightarrow> ('a \<times> nat) list" where
  "counter xs = foldl (\<lambda>c x. counter_add x c) [] xs"

definition most_common :: "nat \<Rightarrow> ('a \<times> nat) list \<Rightarrow> ('a \<times> nat) list" where
  "most_common n c = take n (sort_key (\<lambda>p. - int (snd p)) c)"

definition invoices_of :: "database \<Rightarrow> string \<Rightarrow> string list" where
  "invoices_of d code =
     take 1000 (uniq [] (map parent
       (filter (\<lambda>l. line_item_code l = code \<and> parenttype l = ''Sales Invoice'')
          (sales_invoice_items d))))"

definition co_items :: "database \<Rightarrow> string \<Rightarrow> string list \<Rightarrow> string list" where
  "co_items d code invoice_names =
     map line_item_code
       (filter (\<lambda>l. parent l \<in> set invoice_names \<and> line_item_code l \<noteq> code)
          (sales_invoice_items d))"

text \<open>
  The rows of \<^verbatim>\<open>Item WooCommerce Server\<close> with a remote id, and the remote id of the
  first such row of an item code.
\<close>

definition linked_rows :: "database \<Rightarrow> sync_link list" where
  "linked_rows d = filter (\<lambda>l. woocommerce_id l \<noteq> []) (concat (map woocommerce_servers (items d)))"

definition linked_wc_id :: "database \<Rightarrow> string \<Rightarrow> string option" where
  "linked_wc_id d code =
     (case filter (\<lambda>l. woocommerce_id l \<noteq> [])
             (concat (map woocommerce_servers (filter (\<lambda>i. item_code i = code) (items d)))) of
        [] \<Rightarrow> None
      | l # _ \<Rightarrow> Some (woocommerce_id l))"

definition top_items :: "database \<Rightarrow> string \<Rightarrow> string list" where
  "top_items d code = map fst (most_common 3 (counter (co_items d code (invoices_of d code))))"

text \<open>The value of \<^verbatim>\<open>wc_ids\<close> after the block \<^verbatim>\<open>if invoices:\<close>.\<close>

definition top_wc_ids :: "database \<Rightarrow> string \<Rightarrow> string list" where
  "top_wc_ids d code =
     (if invoices_of d code = [] then []
      else if top_items d code = [] then []
      else List.map_filter (linked_wc_id d) (top_items d code))"

definition random_items :: "env \<Rightarrow> database \<Rightarrow> sync_link list" where
  "random_items e d = take 3 (rand_order e (linked_rows d))"

definition push_bundle_product_items :: "env \<Rightarrow> json \<Rightarrow> string list \<Rightarrow> step" where
  "push_bundle_product_items e product_id wc_ids =
     push e product_id None [(''bundle_product_items'', JList (map JStr wc_ids))]"

definition push_bought_together :: "env \<Rightarrow> json \<Rightarrow> item \<Rightarrow> step" where
  "push_bought_together e product_id it =
     try_except ''Bought Together Sync Failed''
       (\<lambda>w. let d = db w;
                current_item_code = item_code it;
                invoices = invoices_of d current_item_code;
                wc_ids = top_wc_ids d current_item_code
            in (case (if wc_ids \<noteq> [] then
                        then_log ''Bought Together Synced''
                          (push_bundle_product_items e product_id wc_ids) w
                      else (Inr (), w)) of
                  (Inl x, w1) \<Rightarrow> (Inl x, w1)
                | (Inr u, w1) \<Rightarrow>
                    if invoices = [] \<or> wc_ids = [] then
                      (let rows = random_items e d in
                       if rows \<noteq> [] then
                         then_log ''No invoices found - pushed random Bought Together items''
                           (push_bundle_product_items e product_id
                              (map woocommerce_id (filter (\<lambda>i. woocommerce_id i \<noteq> []) rows))) w1
                       else
                         (Inr (), log_error ''No random items available for Bought Together fallback'' w1))
                    else (Inr (), w1)))"

subsection \<open>The whole update\<close>

text \<open>
  \<^verbatim>\<open>wc_product.save()\<close> goes to the remote store through the product document; an
  exception of it is not caught here.
\<close>

definition save_product :: "env \<Rightarrow> wc_product \<Rightarrow> step" where
  "save_product e p w =
     (case remote_call e (Doc_save p) w of
        (Raises, w1) \<Rightarrow> (Inl RemoteError, w1)
      | (r, w1) \<Rightarrow> (Inr (), w1))"

definition product_id_of :: "wc_product \<Rightarrow> json" where
  "product_id_of p = (if truthy (dict_get ''id'' p) then dict_get ''id'' p else dict_get ''product_id'' p)"

text \<open>The name of the remote product: the cleaned item name, or the description of the bundle.\<close>

definition named_product :: "database \<Rightarrow> item \<Rightarrow> wc_product \<Rightarrow> wc_product \<times> bool" where
  "named_product d it wc_product =
     (let clean_name = clean_product_name (item_name it) in
      (case find_bundle d (item_code it) of
         None \<Rightarrow>
           if dict_get ''woocommerce_name'' wc_product \<noteq> JStr clean_name then
             (dict_set ''woocommerce_name'' (JStr clean_name) wc_product, True)
           else (wc_product, False)
       | Some bundle_doc \<Rightarrow>
           (dict_set ''woocommerce_name''
              (JStr (if strip (bundle_description bundle_doc) \<noteq> []
                     then strip (bundle_description bundle_doc) else clean_name))
              wc_product, True)))"

definition field_groups :: "env \<Rightarrow> synchronise_item \<Rightarrow> json \<Rightarrow> item \<Rightarrow> step list" where
  "field_groups e self product_id it =
     [push_sku e product_id it,
      push_images e product_id it,
      push_description e product_id it,
      push_shipping_class e product_id it,
      push_attributes e product_id it,
      push_branch_stock e product_id it,
      push_stock e product_id it,
      push_price e product_id it,
      push_spare_part e product_id it,
      push_compatibility e product_id it,
      push_categories e self product_id it,
      push_offer_categories e self product_id it,
      push_bought_together e product_id it]"

text \<open>
  \<^verbatim>\<open>update_woocommerce_product(wc_product, item)\<close>. The product it returns is the one the
  caller's \<^verbatim>\<open>self.woocommerce_product\<close> refers to afterwards.
\<close>

definition update_woocommerce_product ::
  "env \<Rightarrow> synchronise_item \<Rightarrow> wc_product \<Rightarrow> item_to_sync \<Rightarrow> world \<Rightarrow> (exn + wc_product) \<times> world" where
  "update_woocommerce_product e self wc_product its w =
     (case servers (db w) of
        [] \<Rightarrow> (Inl IndexError, w)
      | server # _ \<Rightarrow>
          if \<not> enable_sync server then (Inr wc_product, w)
          else
            (let w0 = log_error ''351'' w;
                 (p1, dirty1) = named_product (db w0) (item its) wc_product
             in (case set_product_fields e p1 its w0 of
                   Inl x \<Rightarrow> (Inl x, w0)
                 | Inr (product_fields_changed, p2) \<Rightarrow>
                     (case (if dirty1 \<or> product_fields_changed then save_product e p2 w0
                            else (Inr (), w0)) of
                        (Inl x, w1) \<Rightarrow> (Inl x, w1)
                      | (Inr u, w1) \<Rightarrow>
                          (case run_steps (field_groups e self (product_id_of p2) (item its)) w1 of
                             (Inl x, w2) \<Rightarrow> (Inl x, w2)
                           | (Inr u, w2) \<Rightarrow> (Inr p2, w2))))))"

section \<open>The sync state store\<close>

text \<open>
  \<^verbatim>\<open>frappe.db.set_value("Item WooCommerce Server", name, field, value, update_modified)\<close>:
  the rows of that name get the field; their \<^verbatim>\<open>modified\<close> moves only with
  \<open>update_modified\<close>.
\<close>

definition set_value :: "string \<Rightarrow> (sync_link \<Rightarrow> sync_link) \<Rightarrow> bool \<Rightarrow> database \<Rightarrow> database" where
  "set_value n f update_modified d =
     d\<lparr>items :=
         map (\<lambda>i. i\<lparr>woocommerce_servers :=
                       map (\<lambda>l. if link_name l = n then
                                   (if update_modified then (f l)\<lparr>link_modified := now d\<rparr> else f l)
                                 else l)
                         (woocommerce_servers i)\<rparr>)
           (items d)\<rparr>"

definition set_sync_hash :: "synchronise_item \<Rightarrow> world \<Rightarrow> (exn + unit) \<times> world" where
  "set_sync_hash self w =
     (case sync_item self of
        None \<Rightarrow> (Inl AttributeError, w)
      | Some its \<Rightarrow>
          (case item_woocommerce_server its of
             Inl x \<Rightarrow> (Inl x, w)
           | Inr link \<Rightarrow>
               (case woocommerce_product self of
                  None \<Rightarrow> (Inl AttributeError, w)
                | Some p \<Rightarrow>
                    (let d1 = set_value (link_name link)
                                (\<lambda>l. l\<lparr>woocommerce_last_sync_hash :=
                                          dict_get ''woocommerce_date_modified'' p\<rparr>)
                                False (db w);
                         d2 = set_value (link_name link) (\<lambda>l. l\<lparr>enabled := 1\<rparr>) False d1
                     in (Inr (), w\<lparr>db := d2\<rparr>)))))"

section \<open>Creating the remote product\<close>

text \<open>The text of a remote id, as a sync link stores it.\<close>

definition id_text :: "json \<Rightarrow> string" where
  "id_text j = (case j of JStr s \<Rightarrow> s | JInt i \<Rightarrow> py_str i | _ \<Rightarrow> [])"

text \<open>
  \<^verbatim>\<open>item.item_woocommerce_server.woocommerce_id = v\<close> on the item in memory, and
  \<^verbatim>\<open>item.item.save()\<close>, \<^verbatim>\<open>item.item.reload()\<close> against the database.
\<close>

definition set_link_id :: "item_to_sync \<Rightarrow> string \<Rightarrow> exn + item_to_sync" where
  "set_link_id its v =
     (let rows = woocommerce_servers (item its); i = item_woocommerce_server_idx its in
      if i = 0 \<and> rows = [] \<or> length rows < i then Inl IndexError
      else
        (let k = (if i = 0 then length rows - 1 else i - 1) in
         Inr (its\<lparr>item := (item its)\<lparr>woocommerce_servers :=
                                          rows[k := (rows ! k)\<lparr>woocommerce_id := v\<rparr>]\<rparr>\<rparr>)))"

definition save_item :: "item \<Rightarrow> world \<Rightarrow> item \<times> world" where
  "save_item it w =
     (let saved = it\<lparr>modified := now (db w)\<rparr> in
      (saved,
       w\<lparr>db := (db w)\<lparr>items := map (\<lambda>i. if item_code i = item_code saved then saved else i)
                                  (items (db w))\<rparr>\<rparr>))"

definition insert_product :: "env \<Rightarrow> wc_product \<Rightarrow> world \<Rightarrow> (exn + wc_product) \<times> world" where
  "insert_product e p w =
     (case remote_call e (Doc_insert p) w of
        (Raises, w1) \<Rightarrow> (Inl RemoteError, w1)
      | (Doc inserted, w1) \<Rightarrow> (Inr inserted, w1)
      | (r, w1) \<Rightarrow> (Inr p, w1))"

text \<open>
  \<^verbatim>\<open>try: self.update_woocommerce_product(...) except Exception: log\<close>, as both
  creating functions end: the product is the updated one when the update returns.
\<close>

definition update_after_creation ::
  "env \<Rightarrow> synchronise_item \<Rightarrow> wc_product \<Rightarrow> item_to_sync \<Rightarrow> world \<Rightarrow> wc_product \<times> world" where
  "update_after_creation e self p its w =
     (case update_woocommerce_product e self p its w of
        (Inl x, w1) \<Rightarrow> (p, log_error ''Failed to update WooCommerce product after creation'' w1)
      | (Inr p1, w1) \<Rightarrow> (p1, w1))"

text \<open>
  The entries of \<^verbatim>\<open>woosb_ids\<close>: one for each child with a remote id on its first sync
  link.
\<close>

definition first_link_id :: "database \<Rightarrow> string \<Rightarrow> string" where
  "first_link_id d code =
     (case concat (map woocommerce_servers (filter (\<lambda>i. item_code i = code) (items d))) of
        [] \<Rightarrow> []
      | l # _ \<Rightarrow> woocommerce_id l)"

fun woosb_ids_of :: "database \<Rightarrow> nat \<Rightarrow> bundle_row list \<Rightarrow> (string \<times> json) list" where
  "woosb_ids_of d k [] = []"
| "woosb_ids_of d k (bi # rest) =
     (let wc_id = first_link_id d (row_item_code bi) in
      (if wc_id \<noteq> [] then
         [(''k'' @ str_nat k,
           JDict [(''id'', JStr wc_id), (''sku'', JStr (row_item_code bi)),
                  (''qty'', JStr (py_str (int_of_float (if qty bi \<noteq> 0 then qty bi else 1)))),
                  (''min'', JStr []), (''max'', JStr [])])]
       else [])
      @ woosb_ids_of d (Suc k) rest)"

text \<open>
  \<^verbatim>\<open>create_bundle_product\<close>: the whole body stands in \<^verbatim>\<open>try\<close> ... \<^verbatim>\<open>except Exception\<close>.
  It never calls \<^verbatim>\<open>set_sync_hash\<close>.
\<close>

definition create_bundle_product_body ::
  "env \<Rightarrow> synchronise_item \<Rightarrow> item_to_sync \<Rightarrow> world \<Rightarrow> (exn + synchronise_item) \<times> world" where
  "create_bundle_product_body e self its w =
     (case find_bundle (db w) (item_code (item its)) of
        None \<Rightarrow> (Inr self, log_error ''No Product Bundle found for item'' w)
      | Some bundle_doc \<Rightarrow>
          if bundle_items bundle_doc = [] then
            (Inr self, log_error ''No Product Bundle Items found'' w)
          else
            (let woosb_ids = woosb_ids_of (db w) 0 (bundle_items bundle_doc) in
             if woosb_ids = [] then
               (Inr self, log_error ''No WooCommerce IDs found for bundle items'' w)
             else
               (let clean_name = clean_product_name (item_name (item its));
                    w0 = log_error ''clean_name'' w
                in (case item_woocommerce_server its of
                      Inl x \<Rightarrow> (Inl x, w0)
                    | Inr link \<Rightarrow>
                        (let wc_product =
                               [(''doctype'', JStr ''WooCommerce Product''),
                                (''type'', JStr ''woosb''),
                                (''woocommerce_name'',
                                   JStr (if strip (bundle_description bundle_doc) \<noteq> []
                                         then strip (bundle_description bundle_doc) else clean_name)),
                                (''woocommerce_server'', JStr (woocommerce_server link)),
                                (''regular_price'', JNum (standard_rate (item its))),
                                (''status'', JStr ''publish''),
                                (''meta_data'',
                                   JList [JDict [(''key'', JStr ''adv_badge''), (''value'', JStr ''combo'')],
                                          JDict [(''key'', JStr ''woosb_ids''),
                                                 (''value'', JDict woosb_ids)]])]
                         in (case insert_product e wc_product w0 of
                               (Inl x, w1) \<Rightarrow> (Inl x, w1)
                             | (Inr inserted, w1) \<Rightarrow>
                                 (let p = dict_set ''id'' (dict_get ''woocommerce_id'' inserted) inserted in
                                  (case set_link_id its (id_text (dict_get ''woocommerce_id'' p)) of
                                     Inl x \<Rightarrow> (Inl x, w1)
                                   | Inr its1 \<Rightarrow>
                                       (let (saved, w2) = save_item (item its1) w1;
                                            its2 = its1\<lparr>item := saved\<rparr>;
                                            self1 = self\<lparr>woocommerce_product := Some p\<rparr>;
                                            (p1, w3) = update_after_creation e self1 p its2 w2
                                        in (Inr (self1\<lparr>sync_item := Some its2,
                                                        woocommerce_product := Some p1\<rparr>),
                                            log_error '' Woo Bundle Synced Successfully'' w3))))))))))"

definition create_bundle_product ::
  "env \<Rightarrow> synchronise_item \<Rightarrow> item_to_sync \<Rightarrow> world \<Rightarrow> synchronise_item \<times> world" where
  "create_bundle_product e self its w =
     (case create_bundle_product_body e self its w of
        (Inl x, w1) \<Rightarrow> (self, log_error ''Woo Bundle Creation Failed'' w1)
      | (Inr self1, w1) \<Rightarrow> (self1, w1))"

text \<open>\<^verbatim>\<open>get_item_price_rate\<close>, with the \<^verbatim>\<open>or "0"\<close> of its caller.\<close>

definition get_item_price_rate :: "item_to_sync \<Rightarrow> database \<Rightarrow> exn + real option" where
  "get_item_price_rate its d =
     (case item_woocommerce_server its of
        Inl x \<Rightarrow> Inl x
      | Inr link \<Rightarrow>
          (case get_server d (woocommerce_server link) of
             None \<Rightarrow> Inl DoesNotExistError
           | Some wc_server \<Rightarrow>
               if enable_price_list_sync wc_server then
                 (case filter (\<lambda>p. price_item_code p = item_name (item its)
                                    \<and> price_list_name p = price_list wc_server
                                    \<and> (case valid_upto p of None \<Rightarrow> True | Some t \<Rightarrow> t > now d))
                         (item_prices d) of
                    [] \<Rightarrow> Inr None
                  | p # _ \<Rightarrow> Inr (Some (price_list_rate p)))
               else Inr None))"

definition regular_price_of :: "real option \<Rightarrow> json" where
  "regular_price_of r = (case r of Some x \<Rightarrow> if x \<noteq> 0 then JNum x else JStr ''0'' | None \<Rightarrow> JStr ''0'')"

text \<open>The attributes of a new variable product; a missing \<^verbatim>\<open>Item Attribute\<close> is logged.\<close>

fun variant_attributes :: "string list \<Rightarrow> world \<Rightarrow> json list \<times> world" where
  "variant_attributes [] w = ([], w)"
| "variant_attributes (a # rest) w =
     (case find (\<lambda>x. attribute_name x = a) (item_attributes (db w)) of
        None \<Rightarrow> variant_attributes rest (log_error ''Error loading attribute'' w)
      | Some item_attr \<Rightarrow>
          (let (others, w1) = variant_attributes rest w in
           (JDict [(''name'', JStr a),
                   (''slug'', JStr (replace '' '' ''_'' (lower a))),
                   (''visible'', JBool True), (''variation'', JBool True),
                   (''options'', JList (map JStr (item_attribute_values item_attr)))] # others, w1)))"

text \<open>The product \<^verbatim>\<open>create_woocommerce_product\<close> starts from: the existing one, or a new one.\<close>

definition existing_product :: "env \<Rightarrow> item_to_sync \<Rightarrow> world \<Rightarrow> wc_product option \<times> world" where
  "existing_product e its w =
     (case item_woocommerce_server its of
        Inl x \<Rightarrow> (None, log_error ''Failed to get existing WooCommerce Product'' w)
      | Inr link \<Rightarrow>
          if woocommerce_id link \<noteq> [] then
            (case remote_call e (Doc_get_by_id (woocommerce_id link)) w of
               (Doc p, w1) \<Rightarrow> (Some p, w1)
             | (r, w1) \<Rightarrow> (None, log_error ''Failed to get existing WooCommerce Product'' w1))
          else (None, w))"

definition new_product :: "item \<Rightarrow> world \<Rightarrow> wc_product \<times> world" where
  "new_product it w =
     (let p = [(''doctype'', JStr ''WooCommerce Product''), (''type'', JStr ''simple''),
               (''status'', JStr ''publish'')] in
      if has_variants it then
        (let (attributes_list, w1) = variant_attributes (attributes it) w in
         (dict_set ''attributes'' (JList attributes_list) (dict_set ''type'' (JStr ''variable'') p), w1))
      else (p, w))"

text \<open>
  \<^verbatim>\<open>try: item.item.reload(); ...woocommerce_id = ...; item.item.save() except Exception: log\<close>.
\<close>

definition link_created_product :: "item_to_sync \<Rightarrow> wc_product \<Rightarrow> world \<Rightarrow> item_to_sync \<times> world" where
  "link_created_product its p w =
     (case get_item (db w) (item_code (item its)) of
        None \<Rightarrow> (its, log_error ''Failed to update ERPNext item with WC ID'' w)
      | Some reloaded \<Rightarrow>
          (case set_link_id (its\<lparr>item := reloaded\<rparr>) (id_text (dict_get ''woocommerce_id'' p)) of
             Inl x \<Rightarrow> (its\<lparr>item := reloaded\<rparr>, log_error ''Failed to update ERPNext item with WC ID'' w)
           | Inr its1 \<Rightarrow>
               (let (saved, w1) = save_item (item its1) w in (its1\<lparr>item := saved\<rparr>, w1))))"

text \<open>
  \<^verbatim>\<open>create_woocommerce_product(item)\<close>. A bundle goes to \<^verbatim>\<open>create_bundle_product\<close> and
  returns; any other item ends with \<^verbatim>\<open>self.set_sync_hash()\<close>. The result of
  \<^verbatim>\<open>set_product_fields\<close> is dropped here.
\<close>

definition create_woocommerce_product ::
  "env \<Rightarrow> synchronise_item \<Rightarrow> item_to_sync \<Rightarrow> world \<Rightarrow> (exn + synchronise_item) \<times> world" where
  "create_woocommerce_product e self its w =
     (let w0 = log_error ''creating '' w in
      if find_bundle (db w0) (item_code (item its)) \<noteq> None then
        (let (self1, w1) = create_bundle_product e self its (log_error ''its a bundle'' w0)
         in (Inr self1, w1))
      else
        (let (found, w1) = existing_product e its w0;
             (p0, w2) = (case found of Some p \<Rightarrow> (p, w1) | None \<Rightarrow> new_product (item its) w1);
             clean_name = clean_product_name (item_name (item its));
             w3 = log_error ''clean_name'' w2;
             p1 = (if dict_get ''woocommerce_name'' p0 \<noteq> JStr clean_name
                   then dict_set ''woocommerce_name'' (JStr clean_name) p0 else p0)
         in (case item_woocommerce_server its of
               Inl x \<Rightarrow> (Inl x, w3)
             | Inr link \<Rightarrow>
                 (case get_item_price_rate its (db w3) of
                    Inl x \<Rightarrow> (Inl x, w3)
                  | Inr rate \<Rightarrow>
                      (let p2 = dict_set ''regular_price'' (regular_price_of rate)
                                  (dict_set ''woocommerce_server'' (JStr (woocommerce_server link)) p1);
                           w4 = (case set_product_fields e p2 its w3 of
                                   Inl x \<Rightarrow> log_error ''Failed to set product fields'' w3
                                 | Inr r \<Rightarrow> w3)
                       in (case (if truthy (dict_get ''name'' p2) then (Inr p2, w4)
                                 else insert_product e p2 w4) of
                             (Inl x, w5) \<Rightarrow> (Inl x, w5)
                           | (Inr p3, w5) \<Rightarrow>
                               (let p4 = dict_set ''id'' (dict_get ''woocommerce_id'' p3) p3;
                                    self1 = self\<lparr>woocommerce_product := Some p4\<rparr>;
                                    (its1, w6) = link_created_product its p4 w5;
                                    (p5, w7) = update_after_creation e self1 p4 its1 w6;
                                    self2 = self1\<lparr>sync_item := Some its1, woocommerce_product := Some p5\<rparr>
                                in (case set_sync_hash self2 w7 of
                                      (Inl x, w8) \<Rightarrow> (Inl x, w8)
                                    | (Inr u, w8) \<Rightarrow> (Inr self2, w8)))))))))"

section \<open>The reconciliation engine\<close>

text \<open>
  The loop of \<^verbatim>\<open>get_list_of_wc_products\<close>: it asks for pages of 100 until a page is
  shorter. A remote store that always answers with a full page keeps it running, which
  is the value \<open>None\<close>.
\<close>

partial_function (option) fetch_pages ::
  "env \<Rightarrow> string \<Rightarrow> string \<Rightarrow> nat \<Rightarrow> wc_product list \<Rightarrow> world
   \<Rightarrow> ((exn + wc_product list) \<times> world) option" where
  "fetch_pages e wc_id srv start wc_products w =
     (case remote_call e (Doc_get_list wc_id srv start) w of
        (Docs new_results, w1) \<Rightarrow>
          if length new_results < 100 then Some (Inr (wc_products @ new_results), w1)
          else fetch_pages e wc_id srv (start + 100) (wc_products @ new_results) w1
      | (Http st b, w1) \<Rightarrow> Some (Inl RemoteError, w1)
      | (Doc p, w1) \<Rightarrow> Some (Inl RemoteError, w1)
      | (Done, w1) \<Rightarrow> Some (Inl RemoteError, w1)
      | (Raises, w1) \<Rightarrow> Some (Inl RemoteError, w1))"

definition get_list_of_wc_products ::
  "env \<Rightarrow> item_to_sync \<Rightarrow> world \<Rightarrow> ((exn + wc_product list) \<times> world) option" where
  "get_list_of_wc_products e its w =
     (case item_woocommerce_server its of
        Inl x \<Rightarrow> Some (Inl x, w)
      | Inr link \<Rightarrow> fetch_pages e (woocommerce_id link) (woocommerce_server link) 0 [] w)"

text \<open>
  \<^verbatim>\<open>get_erpnext_item\<close>: the first sync link with the server and the remote id of the
  product, and the item it belongs to.
\<close>

definition item_links :: "database \<Rightarrow> (item \<times> sync_link) list" where
  "item_links d = concat (map (\<lambda>i. map (\<lambda>l. (i, l)) (woocommerce_servers i)) (items d))"

definition get_erpnext_item :: "synchronise_item \<Rightarrow> database \<Rightarrow> exn + synchronise_item" where
  "get_erpnext_item self d =
     (case woocommerce_product self of
        None \<Rightarrow> Inl AttributeError
      | Some p \<Rightarrow>
          if \<not> (truthy (dict_get ''woocommerce_server'' p) \<and> truthy (dict_get ''woocommerce_id'' p))
          then Inl ValueError
          else
            (case find (\<lambda>il. JStr (woocommerce_server (snd il)) = dict_get ''woocommerce_server'' p
                              \<and> woocommerce_id (snd il) = id_text (dict_get ''woocommerce_id'' p))
                    (item_links d) of
               None \<Rightarrow> Inr self
             | Some il \<Rightarrow>
                 (case find (\<lambda>s. link_name s = link_name (snd il)) (woocommerce_servers (fst il)) of
                    None \<Rightarrow> Inl StopIteration
                  | Some s \<Rightarrow>
                      Inr (self\<lparr>sync_item :=
                                  Some \<lparr>item = fst il, item_woocommerce_server_idx = idx s\<rparr>\<rparr>))))"

text \<open>
  \<^verbatim>\<open>get_corresponding_item_or_product\<close>: from the local item to the remote product
  (created again when the remote store no longer has it), or from the remote product to
  the local item.
\<close>

definition product_of_item ::
  "env \<Rightarrow> synchronise_item \<Rightarrow> item_to_sync \<Rightarrow> world \<Rightarrow> ((exn + synchronise_item) \<times> world) option" where
  "product_of_item e self its w =
     (case item_woocommerce_server its of
        Inl x \<Rightarrow> Some (Inl x, w)
      | Inr link \<Rightarrow>
          if woocommerce_id link \<noteq> [] then
            (case get_server (db w) (woocommerce_server link) of
               None \<Rightarrow> Some (Inl DoesNotExistError, w)
             | Some wc_server \<Rightarrow>
                 if \<not> enable_sync wc_server then Some (Inl SyncDisabledError, w)
                 else
                   (case get_list_of_wc_products e its w of
                      None \<Rightarrow> None
                    | Some (Inl x, w1) \<Rightarrow> Some (Inl x, w1)
                    | Some (Inr [], w1) \<Rightarrow>
                        Some (create_woocommerce_product e self its
                                (log_error ''WooCommerce Product Not Found'' w1))
                    | Some (Inr (p # ps), w1) \<Rightarrow>
                        Some (Inr (self\<lparr>woocommerce_product := Some p\<rparr>), w1)))
          else Some (Inr self, w))"

definition get_corresponding_item_or_product ::
  "env \<Rightarrow> synchronise_item \<Rightarrow> world \<Rightarrow> ((exn + synchronise_item) \<times> world) option" where
  "get_corresponding_item_or_product e self w =
     (case (case sync_item self of
              Some its \<Rightarrow>
                if woocommerce_product self = None then product_of_item e self its w
                else Some (Inr self, w)
            | None \<Rightarrow> Some (Inr self, w)) of
        None \<Rightarrow> None
      | Some (Inl x, w1) \<Rightarrow> Some (Inl x, w1)
      | Some (Inr self1, w1) \<Rightarrow>
          if woocommerce_product self1 \<noteq> None \<and> sync_item self1 = None then
            Some (get_erpnext_item self1 (db w1), w1)
          else Some (Inr self1, w1))"


definition create_item :: "synchronise_item \<Rightarrow> wc_product \<Rightarrow> world \<Rightarrow> synchronise_item \<times> world" where
  "create_item self p w = (self, w)"

text \<open>\<^verbatim>\<open>get_datetime\<close> on a point in time; on \<^verbatim>\<open>None\<close> it gives the present.\<close>

definition get_datetime :: "database \<Rightarrow> json \<Rightarrow> int option" where
  "get_datetime d j = (case j of JInt t \<Rightarrow> Some t | JNull \<Rightarrow> Some (now d) | _ \<Rightarrow> None)"

text \<open>
  \<^verbatim>\<open>sync_wc_product_with_erpnext_item\<close>. With both sides present the product is updated
  from the item, and once more when its date is older than the item's; the comparison
  that led to \<^verbatim>\<open>update_item\<close> is commented out, and the condition around the rest is
  \<^verbatim>\<open>10==10\<close>.
\<close>

definition sync_wc_product_with_erpnext_item ::
  "env \<Rightarrow> synchronise_item \<Rightarrow> world \<Rightarrow> (exn + synchronise_item) \<times> world" where
  "sync_wc_product_with_erpnext_item e self w =
     (let w0 = log_error ''255'' w in
      (case sync_item self of
         Some its \<Rightarrow>
           (case woocommerce_product self of
              None \<Rightarrow> create_woocommerce_product e self its (log_error ''no woo product'' w0)
            | Some p \<Rightarrow>
                (case update_woocommerce_product e self p its (log_error ''264'' w0) of
                   (Inl x, w1) \<Rightarrow> (Inl x, w1)
                 | (Inr p1, w1) \<Rightarrow>
                     (let self1 = self\<lparr>woocommerce_product := Some p1\<rparr> in
                      (case get_datetime (db w1) (dict_get ''woocommerce_date_modified'' p1) of
                         None \<Rightarrow> (Inl ValueError, w1)
                       | Some t \<Rightarrow>
                           if t < modified (item its) then
                             (case update_woocommerce_product e self1 p1 its (log_error ''276'' w1) of
                                (Inl x, w2) \<Rightarrow> (Inl x, w2)
                              | (Inr p2, w2) \<Rightarrow> (Inr (self1\<lparr>woocommerce_product := Some p2\<rparr>), w2))
                           else (Inr self1, w1)))))
       | None \<Rightarrow>
           (case woocommerce_product self of
              Some p \<Rightarrow> (let (self1, w1) = create_item self p w0 in (Inr self1, w1))
            | None \<Rightarrow> (Inr self, w0))))"

text \<open>\<^verbatim>\<open>run\<close>: the handler builds a message and raises the exception again.\<close>

definition run :: "env \<Rightarrow> synchronise_item \<Rightarrow> world \<Rightarrow> ((exn + synchronise_item) \<times> world) option" where
  "run e self w =
     (case get_corresponding_item_or_product e self w of
        None \<Rightarrow> None
      | Some (Inl x, w1) \<Rightarrow> Some (Inl x, w1)
      | Some (Inr self1, w1) \<Rightarrow> Some (sync_wc_product_with_erpnext_item e self1 w1))"

text \<open>\<^verbatim>\<open>SynchroniseItem(item=..., woocommerce_product=...)\<close>.\<close>

definition new_synchronise_item ::
  "database \<Rightarrow> item_to_sync option \<Rightarrow> wc_product option \<Rightarrow> synchronise_item" where
  "new_synchronise_item d its p =
     \<lparr>sync_item = its, woocommerce_product = p,
      wcapi = (case enabled_servers d of [] \<Rightarrow> None | s # ss \<Rightarrow> Some s)\<rparr>"

section \<open>The entry point\<close>

text \<open>
  The arguments of \<^verbatim>\<open>run_item_sync\<close>. A string argument counts as given when it is
  not empty, a document when it is there.
\<close>

record sync_args =
  arg_item_code :: "string option"
  arg_item :: "item option"
  arg_woocommerce_product_name :: "string option"
  arg_woocommerce_product :: "wc_product option"
  enqueue :: bool

definition given :: "string option \<Rightarrow> bool" where
  "given s = (case s of Some v \<Rightarrow> v \<noteq> [] | None \<Rightarrow> False)"

text \<open>
  The loop \<^verbatim>\<open>for wc_server in item.woocommerce_servers\<close>: one synchronisation for each
  sync link, run or put on the queue. \<open>last\<close> is the variable \<^verbatim>\<open>sync\<close>; the item
  document is shared by all of them.
\<close>

fun sync_servers ::
  "env \<Rightarrow> bool \<Rightarrow> item \<Rightarrow> sync_link list \<Rightarrow> synchronise_item option \<Rightarrow> world
   \<Rightarrow> ((exn + synchronise_item option) \<times> world) option" where
  "sync_servers e enq it [] last_sync w = Some (Inr last_sync, w)"
| "sync_servers e enq it (wc_server # rest) last_sync w =
     (let sync = new_synchronise_item (db w)
                   (Some \<lparr>item = it, item_woocommerce_server_idx = idx wc_server\<rparr>) None in
      if enq then sync_servers e enq it rest (Some sync) (w\<lparr>enqueued := enqueued w @ [sync]\<rparr>)
      else
        (case run e sync w of
           None \<Rightarrow> None
         | Some (Inl x, w1) \<Rightarrow> Some (Inl x, w1)
         | Some (Inr sync1, w1) \<Rightarrow>
             sync_servers e enq
               (case sync_item sync1 of Some its \<Rightarrow> item its | None \<Rightarrow> it)
               rest (Some sync1) w1))"

definition sync_result :: "synchronise_item option \<Rightarrow> item option \<times> wc_product option" where
  "sync_result s =
     (case s of
        None \<Rightarrow> (None, None)
      | Some sync \<Rightarrow> (map_option item (sync_item sync), woocommerce_product sync))"

definition run_item_sync_remote ::
  "env \<Rightarrow> sync_args \<Rightarrow> world \<Rightarrow> ((exn + item option \<times> wc_product option) \<times> world) option" where
  "run_item_sync_remote e args w =
     (let w1 = log_error ''64'' w in
      (case (case arg_woocommerce_product args of
               Some p \<Rightarrow> (Inr p, w1)
             | None \<Rightarrow>
                 (case remote_call e
                         (Doc_load (case arg_woocommerce_product_name args of Some n \<Rightarrow> n | None \<Rightarrow> []))
                         (log_error ''66'' w1) of
                    (Doc p, w2) \<Rightarrow> (Inr p, w2)
                  | (r, w2) \<Rightarrow> (Inl RemoteError, w2))) of
         (Inl x, w2) \<Rightarrow> Some (Inl x, w2)
       | (Inr p, w2) \<Rightarrow>
           (let w3 = log_error ''73'' w2;
                sync = new_synchronise_item (db w3) None (Some p)
            in if enqueue args then
                 Some (Inr (sync_result (Some sync)), w3\<lparr>enqueued := enqueued w3 @ [sync]\<rparr>)
               else
                 (case run e sync w3 of
                    None \<Rightarrow> None
                  | Some (Inl x, w4) \<Rightarrow> Some (Inl x, w4)
                  | Some (Inr sync1, w4) \<Rightarrow> Some (Inr (sync_result (Some sync1)), w4)))))"

definition run_item_sync_local ::
  "env \<Rightarrow> sync_args \<Rightarrow> world \<Rightarrow> ((exn + item option \<times> wc_product option) \<times> world) option" where
  "run_item_sync_local e args w =
     (let w1 = log_error ''92'' w in
      (case (case arg_item args of
               Some it \<Rightarrow> Some it
             | None \<Rightarrow> get_item (db w1) (case arg_item_code args of Some c \<Rightarrow> c | None \<Rightarrow> [])) of
         None \<Rightarrow> Some (Inl DoesNotExistError, w1)
       | Some it \<Rightarrow>
           (let price = standard_selling_price (db w1) (item_code it) in
            if custom_disable_sync it = 1 \<or> custom_disable_sync_if_not_in_stock it = 1 then
              Some (Inr (None, None), log_error ''Skipped Item Sync'' w1)
            else if price = 0 \<or> price \<le> 0 then
              Some (Inr (None, None), log_error ''Skipped Item Sync'' w1)
            else if woocommerce_servers it = [] then Some (Inl ValidationError, w1)
            else
              (case sync_servers e (enqueue args) it (woocommerce_servers it) None w1 of
                 None \<Rightarrow> None
               | Some (Inl x, w2) \<Rightarrow> Some (Inl x, w2)
               | Some (Inr last_sync, w2) \<Rightarrow> Some (Inr (sync_result last_sync), w2)))))"

text \<open>
  \<^verbatim>\<open>run_item_sync\<close>. It raises \<^verbatim>\<open>ValueError\<close> when none of the four arguments is given;
  a remote product or its name takes the first branch, whether or not an item is given
  too.
\<close>

definition run_item_sync ::
  "env \<Rightarrow> sync_args \<Rightarrow> world \<Rightarrow> ((exn + item option \<times> wc_product option) \<times> world) option" where
  "run_item_sync e args w =
     (let w0 = log_error ''run_item_sync Debug'' w in
      if \<not> (given (arg_item_code args) \<or> arg_item args \<noteq> None
             \<or> given (arg_woocommerce_product_name args) \<or> arg_woocommerce_product args \<noteq> None)
      then Some (Inl ValueError, w0)
      else if arg_woocommerce_product args \<noteq> None \<or> given (arg_woocommerce_product_name args)
      then run_item_sync_remote e args w0
      else if arg_item args \<noteq> None \<or> given (arg_item_code args)
      then run_item_sync_local e args w0
      else Some (Inl UnboundLocalError, w0))"

section \<open>What a statement may change\<close>

text \<open>
  The calls this module makes itself, and the relation between the state before and
  after a statement that only makes such calls and writes log entries other than the
  one of \<^verbatim>\<open>update_item\<close>: the database and the queue are as before.
\<close>

definition module_call :: "call \<Rightarrow> bool" where
  "module_call c =
     (case c of
        Put_product u i p \<Rightarrow> True
      | Get_categories n \<Rightarrow> True
      | Post_category n \<Rightarrow> True
      | Get_offer_category u s \<Rightarrow> True
      | _ \<Rightarrow> False)"

definition only_traced :: "world \<Rightarrow> world \<Rightarrow> bool" where
  "only_traced w w' =
     (db w' = db w \<and> enqueued w' = enqueued w
      \<and> (\<exists>cs. calls w' = calls w @ cs \<and> list_all module_call cs)
      \<and> (\<exists>ls. logs w' = logs w @ ls \<and> ''new'' \<notin> set ls))"

definition quiet :: "(world \<Rightarrow> 'a \<times> world) \<Rightarrow> bool" where
  "quiet s = (\<forall>w. only_traced w (snd (s w)))"

text \<open>The whole update: the database and the queue stay; the only other call is the save.\<close>

definition saves_only :: "world \<Rightarrow> world \<Rightarrow> bool" where
  "saves_only w w' =
     (db w' = db w \<and> enqueued w' = enqueued w
      \<and> (\<exists>cs. calls w' = calls w @ cs \<and> list_all (\<lambda>c. module_call c \<or> (\<exists>p. c = Doc_save p)) cs)
      \<and> (\<exists>ls. logs w' = logs w @ ls \<and> ''new'' \<notin> set ls))"

definition example_server :: wc_server where
  "example_server =
     \<lparr>server_name = ''shop'', woocommerce_server_url = ''https://shop.example/'',
      api_consumer_key = ''ck'', api_consumer_secret = ''cs'', enable_sync = True,
      enable_price_list_sync = False, price_list = [], item_field_map = []\<rparr>"

definition example_link :: sync_link where
  "example_link =
     \<lparr>link_name = ''row1'', idx = 1, woocommerce_server = ''shop'', woocommerce_id = ''501'',
      enabled = 0, woocommerce_last_sync_hash = JNull, link_modified = 5\<rparr>"

definition example_item :: item where
  "example_item =
     \<lparr>item_code = ''PAD-1'', item_name = ''Brake pad'', modified = 10,
      custom_disable_sync = 0, custom_disable_sync_if_not_in_stock = 0,
      woocommerce_servers = [example_link], custom_woo_image_url = [],
      custom_shipping_class = [], custom_woo_attribuetes = [],
      custom_compatibility =
        [\<lparr>brand = ''Toyota'', model = ''Corolla'', years = ''2014, x'', fuel = [], engine_size = []\<rparr>],
      category = ''Brakes'', sub_category = [], custom_offer_categories = [],
      has_variants = False, attributes = [], standard_rate = 25, other_fields = []\<rparr>"

definition example_db :: database where
  "example_db =
     \<lparr>servers = [example_server], items = [example_item], bundles = [],
      translation_rows = [], bins = [],
      item_prices = [\<lparr>price_item_code = ''PAD-1'', price_list_name = ''Standard Selling'',
                       price_list_rate = 25, valid_upto = None\<rparr>],
      sales_invoice_items = [], item_attributes = [], now = 20\<rparr>"

definition example_world :: world where
  "example_world = \<lparr>calls = [], logs = [], db = example_db, enqueued = []\<rparr>"

definition example_product :: wc_product where
  "example_product =
     [(''name'', JStr ''shop~501''), (''id'', JInt 501), (''woocommerce_id'', JStr ''501''),
      (''woocommerce_server'', JStr ''shop''), (''woocommerce_name'', JStr ''Brake pad''),
      (''woocommerce_date_modified'', JInt 15)]"

definition example_env :: env where
  "example_env =
     \<lparr>remote = (\<lambda>h c. Http 200 (Some (JList []))),
      jsonpath_valid = (\<lambda>p. True),
      jsonpath_find = (\<lambda>p t. []),
      jsonpath_update = (\<lambda>p t v. t),
      deserialize = JDict,
      serialize = (\<lambda>j. case j of JDict d \<Rightarrow> d | _ \<Rightarrow> []),
      rand_order = (\<lambda>rows. rows),
      str_float = (\<lambda>x. ''25.0''),
      ascii_fold = (\<lambda>s. s)\<rparr>"


definition example_unsellable :: item where
  "example_unsellable = example_item\<lparr>custom_disable_sync := 1, woocommerce_servers := []\<rparr>"

definition example_both :: sync_args where
  "example_both =
     \<lparr>arg_item_code = Some ''PAD-1'', arg_item = None, arg_woocommerce_product_name = None,
      arg_woocommerce_product = Some example_product, enqueue = False\<rparr>"

section \<open>Properties of the temporal range expander\<close>




















lemma digit_val_char: "d < 10 \<Longrightarrow> digit_val (digit_char d) = d"
  by (simp add: digit_val_def digit_char_def)

lemma digits_val_snoc: "digits_val (xs @ [c]) = digits_val xs * 10 + digit_val c"
  by (simp add: digits_val_def)


lemma str_nat_val: "digits_val (str_nat n) = n"
proof (induction n rule: str_nat.induct)
  case (1 n)
  show ?case
  proof (cases "n < 10")
    case True
    then show ?thesis by (simp add: str_nat.simps[of n] digit_val_char digits_val_def)
  next
    case False
    then show ?thesis using 1 by (simp add: str_nat.simps[of n] digits_val_snoc digit_val_char)
  qed
qed


























lemma only_traced_refl: "only_traced w w"
  by (simp add: only_traced_def)

lemma only_traced_trans: "only_traced w w1 \<Longrightarrow> only_traced w1 w2 \<Longrightarrow> only_traced w w2"
proof -
  assume a: "only_traced w w1" and b: "only_traced w1 w2"
  from a obtain cs1 ls1 where 1: "db w1 = db w" "enqueued w1 = enqueued w"
    "calls w1 = calls w @ cs1" "list_all module_call cs1" "logs w1 = logs w @ ls1" "''new'' \<notin> set ls1"
    unfolding only_traced_def by blast
  from b obtain cs2 ls2 where 2: "db w2 = db w1" "enqueued w2 = enqueued w1"
    "calls w2 = calls w1 @ cs2" "list_all module_call cs2" "logs w2 = logs w1 @ ls2" "''new'' \<notin> set ls2"
    unfolding only_traced_def by blast
  have c: "calls w2 = calls w @ (cs1 @ cs2)" "list_all module_call (cs1 @ cs2)"
    using 1 2 by simp_all
  have l: "logs w2 = logs w @ (ls1 @ ls2)" "''new'' \<notin> set (ls1 @ ls2)"
    using 1 2 by simp_all
  show ?thesis unfolding only_traced_def using 1(1,2) 2(1,2) c l by metis
qed

lemma only_traced_log: "t \<noteq> ''new'' \<Longrightarrow> only_traced w w1 \<Longrightarrow> only_traced w (log_error t w1)"
proof -
  assume t: "t \<noteq> ''new''" and a: "only_traced w w1"
  have "only_traced w1 (log_error t w1)" using t by (simp add: only_traced_def log_error_def)
  with a show ?thesis by (rule only_traced_trans)
qed


lemma quietI: "(\<And>w. only_traced w (snd (s w))) \<Longrightarrow> quiet s"
  by (simp add: quiet_def)










lemma quiet_return: "quiet (\<lambda>w. (r, w))"
  by (rule quietI) (simp add: only_traced_refl)

lemma quiet_return_log: "t \<noteq> ''new'' \<Longrightarrow> quiet (\<lambda>w. (r, log_error t w))"
  by (rule quietI) (simp add: only_traced_refl only_traced_log)







































lemma saves_only_logs: "saves_only w w' \<Longrightarrow> ''new'' \<notin> set (drop (length (logs w)) (logs w'))"
  unfolding saves_only_def by auto



text \<open>
  Claim C9. Started from a local item (no remote product and no product name given),
  \<^verbatim>\<open>run_item_sync\<close> returns \<^verbatim>\<open>(None, None)\<close> when one of the two flags of the item
  is 1, when the item has no price on the list \<^verbatim>\<open>Standard Selling\<close>, or when that price
  is zero or negative. It makes no call, queues nothing and leaves the database as it
  is, whether or not the item has servers: the gate stands before that check.
\<close>

theorem run_item_sync_gate:
  assumes "arg_woocommerce_product args = None"
      and "\<not> given (arg_woocommerce_product_name args)"
      and "arg_item args = Some it
           \<or> (arg_item args = None
               \<and> (\<exists>code. arg_item_code args = Some code \<and> code \<noteq> [] \<and> get_item (db w) code = Some it))"
      and "custom_disable_sync it = 1 \<or> custom_disable_sync_if_not_in_stock it = 1
           \<or> filter (\<lambda>p. price_item_code p = item_code it \<and> price_list_name p = ''Standard Selling'')
                (item_prices (db w)) = []
           \<or> standard_selling_price (db w) (item_code it) \<le> 0"
  shows "\<exists>w'. run_item_sync e args w = Some (Inr (None, None), w')
           \<and> calls w' = calls w \<and> enqueued w' = enqueued w \<and> db w' = db w"
proof -
  define w0 where "w0 = log_error ''run_item_sync Debug'' w"
  define w1 where "w1 = log_error ''92'' w0"
  have d: "db w1 = db w" "calls w1 = calls w" "enqueued w1 = enqueued w"
    by (simp_all add: w1_def w0_def log_error_def)
  have loc: "run_item_sync e args w = run_item_sync_local e args w0"
    using assms(1,2,3) by (auto simp: run_item_sync_def w0_def given_def)
  have it: "(case arg_item args of
               Some it \<Rightarrow> Some it
             | None \<Rightarrow> get_item (db w1) (case arg_item_code args of Some c \<Rightarrow> c | None \<Rightarrow> [])) = Some it"
    using assms(3) d by auto
  have price: "custom_disable_sync it = 1 \<or> custom_disable_sync_if_not_in_stock it = 1
      \<or> standard_selling_price (db w1) (item_code it) \<le> 0"
    using assms(4) d by (auto simp: standard_selling_price_def)
  have "run_item_sync_local e args w0 = Some (Inr (None, None), log_error ''Skipped Item Sync'' w1)"
    unfolding run_item_sync_local_def w1_def[symmetric] Let_def it using price by auto
  then show ?thesis using loc d by (simp add: log_error_def)
qed

theorem run_item_sync_gate_witness:
  "(\<exists>w'. run_item_sync example_env
            \<lparr>arg_item_code = None, arg_item = Some example_unsellable,
             arg_woocommerce_product_name = None, arg_woocommerce_product = None, enqueue = False\<rparr>
            example_world = Some (Inr (None, None), w')
          \<and> calls w' = calls example_world \<and> enqueued w' = enqueued example_world
          \<and> db w' = db example_world)
   \<and> woocommerce_servers example_unsellable = []"
proof -
  let ?args = "\<lparr>arg_item_code = None, arg_item = Some example_unsellable,
             arg_woocommerce_product_name = None, arg_woocommerce_product = None, enqueue = False\<rparr>"
  have 1: "arg_woocommerce_product ?args = None" by simp
  have 2: "\<not> given (arg_woocommerce_product_name ?args)" by (simp add: given_def)
  have 3: "arg_item ?args = Some example_unsellable
           \<or> (arg_item ?args = None
               \<and> (\<exists>code. arg_item_code ?args = Some code \<and> code \<noteq> []
                      \<and> get_item (db example_world) code = Some example_unsellable))"
    by simp
  have 4: "custom_disable_sync example_unsellable = 1
           \<or> custom_disable_sync_if_not_in_stock example_unsellable = 1
           \<or> filter (\<lambda>p. price_item_code p = item_code example_unsellable
                        \<and> price_list_name p = ''Standard Selling'')
                (item_prices (db example_world)) = []
           \<or> standard_selling_price (db example_world) (item_code example_unsellable) \<le> 0"
    by (simp add: example_unsellable_def)
  from run_item_sync_gate[OF 1 2 3 4, of example_env]
  show ?thesis by (simp add: example_unsellable_def)
qed

text \<open>
  Claim C6, as the code has it. The entry check of \<^verbatim>\<open>run_item_sync\<close> raises
  \<^verbatim>\<open>ValueError\<close> when none of the four arguments is given. With a remote product or
  its name it goes on from the remote side and never looks at the local item or its
  code; with a local item or code only, it goes on from the local side.
\<close>

theorem run_item_sync_entry:
  "(\<not> given (arg_item_code args) \<and> arg_item args = None
      \<and> \<not> given (arg_woocommerce_product_name args) \<and> arg_woocommerce_product args = None
      \<longrightarrow> run_item_sync e args w = Some (Inl ValueError, log_error ''run_item_sync Debug'' w))
   \<and> (arg_woocommerce_product args \<noteq> None \<or> given (arg_woocommerce_product_name args)
      \<longrightarrow> run_item_sync e args w = run_item_sync_remote e args (log_error ''run_item_sync Debug'' w)
          \<and> run_item_sync e args w = run_item_sync e (args\<lparr>arg_item_code := None, arg_item := None\<rparr>) w)
   \<and> (arg_woocommerce_product args = None \<and> \<not> given (arg_woocommerce_product_name args)
      \<and> (arg_item args \<noteq> None \<or> given (arg_item_code args))
      \<longrightarrow> run_item_sync e args w = run_item_sync_local e args (log_error ''run_item_sync Debug'' w))"
proof -
  have r: "run_item_sync_remote e (args\<lparr>arg_item_code := None, arg_item := None\<rparr>) w0
           = run_item_sync_remote e args w0" for w0
  proof -
    have s: "arg_woocommerce_product (args\<lparr>arg_item_code := None, arg_item := None\<rparr>)
               = arg_woocommerce_product args"
      "arg_woocommerce_product_name (args\<lparr>arg_item_code := None, arg_item := None\<rparr>)
               = arg_woocommerce_product_name args"
      "enqueue (args\<lparr>arg_item_code := None, arg_item := None\<rparr>) = enqueue args"
      by simp_all
    show ?thesis unfolding run_item_sync_remote_def s by (rule refl)
  qed
  show ?thesis
    by (auto simp: run_item_sync_def Let_def r given_def)
qed

theorem run_item_sync_entry_witness:
  "run_item_sync example_env
     \<lparr>arg_item_code = None, arg_item = None, arg_woocommerce_product_name = Some [],
      arg_woocommerce_product = None, enqueue = False\<rparr> example_world
     = Some (Inl ValueError, log_error ''run_item_sync Debug'' example_world)
   \<and> run_item_sync example_env example_both example_world
     = run_item_sync example_env (example_both\<lparr>arg_item_code := None, arg_item := None\<rparr>) example_world
   \<and> run_item_sync example_env (example_both\<lparr>arg_woocommerce_product := None\<rparr>) example_world
     = run_item_sync_local example_env (example_both\<lparr>arg_woocommerce_product := None\<rparr>)
         (log_error ''run_item_sync Debug'' example_world)"
proof -
  note t1 = run_item_sync_entry[of "\<lparr>arg_item_code = None, arg_item = None,
      arg_woocommerce_product_name = Some [], arg_woocommerce_product = None, enqueue = False\<rparr>"
      example_env example_world]
  note t2 = run_item_sync_entry[of example_both example_env example_world]
  note t3 = run_item_sync_entry[of "example_both\<lparr>arg_woocommerce_product := None\<rparr>"
      example_env example_world]
  have g: "given (Some ''PAD-1'')" "\<not> given None" "\<not> given (Some [])" by (simp_all add: given_def)
  have p: "arg_woocommerce_product example_both \<noteq> None"
    "arg_woocommerce_product (example_both\<lparr>arg_woocommerce_product := None\<rparr>) = None"
    "arg_woocommerce_product_name (example_both\<lparr>arg_woocommerce_product := None\<rparr>) = None"
    "arg_item_code (example_both\<lparr>arg_woocommerce_product := None\<rparr>) = Some ''PAD-1''"
    by (simp_all add: example_both_def)
  have c1: "run_item_sync example_env
     \<lparr>arg_item_code = None, arg_item = None, arg_woocommerce_product_name = Some [],
      arg_woocommerce_product = None, enqueue = False\<rparr> example_world
     = Some (Inl ValueError, log_error ''run_item_sync Debug'' example_world)"
    using t1 g by simp
  have c2: "run_item_sync example_env example_both example_world
     = run_item_sync example_env (example_both\<lparr>arg_item_code := None, arg_item := None\<rparr>) example_world"
    using t2 p(1) by blast
  have c3: "run_item_sync example_env (example_both\<lparr>arg_woocommerce_product := None\<rparr>) example_world
     = run_item_sync_local example_env (example_both\<lparr>arg_woocommerce_product := None\<rparr>)
         (log_error ''run_item_sync Debug'' example_world)"
    using t3 g unfolding p(2,3,4) by blast
  show ?thesis by (rule conjI[OF c1 conjI[OF c2 c3]])
qed

theorem both_identities_no_invalid_input:
  "map_option fst (run_item_sync example_env example_both example_world)
   = Some (Inr (Some example_item, Some example_product))"
  by code_simp

end
